theory Spec2Isabelle
  imports Main "HOL-Library.Sublist"
begin

section \<open>Python strings\<close>

text \<open>
  A Python \<open>str\<close> is modelled as a \<open>string\<close>, each \<open>char\<close> standing for one code point
  in the range U+0000..U+00FF. A backslash cannot be written inside a HOL string
  literal, so \<open>bs s\<close> is the string \<open>s\<close> with a backslash in front.
\<close>

definition bs :: "string \<Rightarrow> string" where
  "bs s = CHR 0x5C # s"

definition nl :: char where
  "nl = CHR 0x0A"

text \<open>\<open>str.isspace\<close> on one code point, which is also what \<open>\s\<close> matches in a \<open>str\<close> pattern.\<close>

definition py_isspace :: "char \<Rightarrow> bool" where
  "py_isspace c = (let n = (of_char c :: nat) in
     (9 \<le> n \<and> n \<le> 13) \<or> (28 \<le> n \<and> n \<le> 32) \<or> n = 133 \<or> n = 160)"

text \<open>What \<open>\w\<close> matches in a \<open>str\<close> pattern (alphanumeric code points and the underscore).\<close>

definition py_isword :: "char \<Rightarrow> bool" where
  "py_isword c = (let n = (of_char c :: nat) in
     (48 \<le> n \<and> n \<le> 57) \<or> (65 \<le> n \<and> n \<le> 90) \<or> n = 95 \<or> (97 \<le> n \<and> n \<le> 122) \<or>
     n = 170 \<or> n = 178 \<or> n = 179 \<or> n = 181 \<or> n = 185 \<or> n = 186 \<or>
     (188 \<le> n \<and> n \<le> 190) \<or> (192 \<le> n \<and> n \<le> 214) \<or> (216 \<le> n \<and> n \<le> 246) \<or> 248 \<le> n)"

text \<open>What \<open>\d\<close> matches in a \<open>str\<close> pattern.\<close>

definition py_isdigit :: "char \<Rightarrow> bool" where
  "py_isdigit c = (let n = (of_char c :: nat) in 48 \<le> n \<and> n \<le> 57)"

text \<open>
  \<open>s.strip()\<close> and \<open>s.strip(chars)\<close>: \<open>lstrip\<close> drops the characters at the front,
  \<open>rstrip\<close> those at the end.
\<close>

definition lstrip :: "(char \<Rightarrow> bool) \<Rightarrow> string \<Rightarrow> string" where
  "lstrip P s = dropWhile P s"

fun rstrip :: "(char \<Rightarrow> bool) \<Rightarrow> string \<Rightarrow> string" where
  "rstrip P [] = []"
| "rstrip P (c # cs) =
     (case rstrip P cs of [] \<Rightarrow> if P c then [] else [c] | d # r \<Rightarrow> c # d # r)"

definition py_strip :: "string \<Rightarrow> string" where
  "py_strip s = rstrip py_isspace (lstrip py_isspace s)"

definition py_strip_chars :: "string \<Rightarrow> string \<Rightarrow> string" where
  "py_strip_chars cs s = rstrip (\<lambda>c. c \<in> set cs) (lstrip (\<lambda>c. c \<in> set cs) s)"

text \<open>\<open>s.startswith(t)\<close>: the rest of \<open>s\<close> after \<open>t\<close>, when \<open>s\<close> starts with \<open>t\<close>.\<close>

fun strip_prefix :: "string \<Rightarrow> string \<Rightarrow> string option" where
  "strip_prefix [] s = Some s"
| "strip_prefix (c # cs) [] = None"
| "strip_prefix (c # cs) (d # ds) = (if c = d then strip_prefix cs ds else None)"

definition startswith :: "string \<Rightarrow> string \<Rightarrow> bool" where
  "startswith s t = (strip_prefix t s \<noteq> None)"

text \<open>\<open>t in s\<close> for strings.\<close>

fun contains :: "string \<Rightarrow> string \<Rightarrow> bool" where
  "contains [] t = (t = [])"
| "contains (c # cs) t = (startswith (c # cs) t \<or> contains cs t)"

text \<open>\<open>s.split(c)\<close> for a separator of one character: never an empty list.\<close>

fun split_char :: "char \<Rightarrow> string \<Rightarrow> string list" where
  "split_char sep [] = [[]]"
| "split_char sep (c # cs) =
     (if c = sep then [] # split_char sep cs
      else (case split_char sep cs of [] \<Rightarrow> [[c]] | w # ws \<Rightarrow> (c # w) # ws))"

text \<open>\<open>sep.join(xs)\<close>.\<close>

fun join :: "string \<Rightarrow> string list \<Rightarrow> string" where
  "join sep [] = []"
| "join sep [x] = x"
| "join sep (x # y # ys) = x @ sep @ join sep (y # ys)"

text \<open>
  \<open>s.replace(old, new)\<close> for a non-empty \<open>old\<close>: the occurrences are taken from the left
  and do not overlap. The recursion is on the text, with \<open>skip\<close> counting the characters
  of an occurrence that are still to be dropped.
\<close>

fun replace_go :: "string \<Rightarrow> string \<Rightarrow> nat \<Rightarrow> string \<Rightarrow> string" where
  "replace_go old new skip [] = []"
| "replace_go old new (Suc k) (c # cs) = replace_go old new k cs"
| "replace_go old new 0 (c # cs) =
     (if startswith (c # cs) old then new @ replace_go old new (length old - 1) cs
      else c # replace_go old new 0 cs)"

definition replace :: "string \<Rightarrow> string \<Rightarrow> string \<Rightarrow> string" where
  "replace old new s = replace_go old new 0 s"

text \<open>\<open>str(n)\<close> for an integer.\<close>

fun str_nat :: "nat \<Rightarrow> string" where
  "str_nat n = (if n < 10 then [''0123456789'' ! n]
                else str_nat (n div 10) @ [''0123456789'' ! (n mod 10)])"

declare str_nat.simps [simp del]

definition str_int :: "int \<Rightarrow> string" where
  "str_int i = (if i < 0 then ''-'' @ str_nat (nat (- i)) else str_nat (nat i))"

section \<open>Regular expressions\<close>

text \<open>
  The patterns of the program, as a datatype, and a backtracking matcher with the
  priorities of Python's \<open>re\<close>: the first alternative first, a greedy repetition longest
  first, a lazy one shortest first. \<open>Dot\<close> is \<open>.\<close> without \<open>re.DOTALL\<close>, \<open>AnyNL\<close> is \<open>.\<close>
  with it. \<open>Cls pos cs fs\<close> is a character class: the listed characters \<open>cs\<close> and the
  escapes \<open>fs\<close> (\<open>\s\<close>, \<open>\w\<close>, \<open>\d\<close>), negated when \<open>pos\<close> is false.
\<close>

datatype re =
    Lit string
  | Dot
  | AnyNL
  | Cls bool "char list" "(char \<Rightarrow> bool) list"
  | Seq re re
  | Alt re re
  | Star re
  | StarLazy re
  | Grp nat re
  | Backref nat
  | Look bool re
  | Behind bool char
  | WordB
  | Bol
  | Eol

text \<open>
  \<open>Look True r\<close> is the lookahead \<open>(?=r)\<close>, \<open>Look False r\<close> is \<open>(?!r)\<close>;
  \<open>Behind False c\<close> is the lookbehind \<open>(?<!c)\<close> for one character, the only kind the
  program uses; \<open>WordB\<close> is \<open>\b\<close>; \<open>Bol\<close> and \<open>Eol\<close> are \<open>^\<close> and \<open>$\<close> without
  \<open>re.MULTILINE\<close>.
\<close>

type_synonym groups = "nat \<rightharpoonup> string"

text \<open>
  The matcher carries the character before the position (\<open>None\<close> at the start of the
  text), the text from the position on, and the groups captured so far; \<open>k\<close> is what
  remains to be matched after the pattern. A repetition goes on only after an
  iteration that has consumed something.
\<close>

type_synonym mstate = "char option \<times> string \<times> groups"

text \<open>The character before the position, after the literal \<open>l\<close> has been passed.\<close>

fun after_lit :: "string \<Rightarrow> char option \<Rightarrow> char option" where
  "after_lit [] prev = prev"
| "after_lit (c # l) prev = after_lit l (Some c)"

fun rmatch :: "re \<Rightarrow> char option \<Rightarrow> string \<Rightarrow> groups \<Rightarrow>
    (char option \<Rightarrow> string \<Rightarrow> groups \<Rightarrow> mstate option) \<Rightarrow> mstate option" where
  "rmatch (Lit l) p s g k =
     (case strip_prefix l s of Some s' \<Rightarrow> k (after_lit l p) s' g | None \<Rightarrow> None)"
| "rmatch Dot p s g k =
     (case s of [] \<Rightarrow> None | c # s' \<Rightarrow> if c = nl then None else k (Some c) s' g)"
| "rmatch AnyNL p s g k = (case s of [] \<Rightarrow> None | c # s' \<Rightarrow> k (Some c) s' g)"
| "rmatch (Cls pos cs fs) p s g k =
     (case s of [] \<Rightarrow> None
      | c # s' \<Rightarrow> if (c \<in> set cs \<or> list_ex (\<lambda>f. f c) fs) = pos then k (Some c) s' g else None)"
| "rmatch (Seq a b) p s g k = rmatch a p s g (\<lambda>p' s' g'. rmatch b p' s' g' k)"
| "rmatch (Alt a b) p s g k =
     (case rmatch a p s g k of Some r \<Rightarrow> Some r | None \<Rightarrow> rmatch b p s g k)"
| "rmatch (Star a) p s g k =
     (case rmatch a p s g
        (\<lambda>p' s' g'. if length s' < length s then rmatch (Star a) p' s' g' k else None) of
        Some r \<Rightarrow> Some r
      | None \<Rightarrow> k p s g)"
| "rmatch (StarLazy a) p s g k =
     (case k p s g of
        Some r \<Rightarrow> Some r
      | None \<Rightarrow> rmatch a p s g
          (\<lambda>p' s' g'. if length s' < length s then rmatch (StarLazy a) p' s' g' k else None))"
| "rmatch (Grp n a) p s g k =
     rmatch a p s g (\<lambda>p' s' g'. k p' s' (g'(n \<mapsto> take (length s - length s') s)))"
| "rmatch (Backref n) p s g k =
     (case g n of None \<Rightarrow> None
      | Some l \<Rightarrow> (case strip_prefix l s of Some s' \<Rightarrow> k (after_lit l p) s' g | None \<Rightarrow> None))"
| "rmatch (Look pos a) p s g k =
     (case rmatch a p s g (\<lambda>p' s' g'. Some (p', s', g')) of
        Some (_, _, g') \<Rightarrow> if pos then k p s g' else None
      | None \<Rightarrow> if pos then None else k p s g)"
| "rmatch (Behind pos c) p s g k = (if (p = Some c) = pos then k p s g else None)"
| "rmatch WordB p s g k =
     (if (case p of None \<Rightarrow> False | Some c \<Rightarrow> py_isword c)
         \<noteq> (case s of [] \<Rightarrow> False | c # _ \<Rightarrow> py_isword c)
      then k p s g else None)"
| "rmatch Bol p s g k = (if p = None then k p s g else None)"
| "rmatch Eol p s g k = (if s = [] \<or> s = [nl] then k p s g else None)"

text \<open>Derived forms: \<open>r?\<close>, \<open>r+\<close>, \<open>r+?\<close>, and a sequence of several patterns.\<close>

definition Opt :: "re \<Rightarrow> re" where
  "Opt r = Alt r (Lit [])"

definition Plus :: "re \<Rightarrow> re" where
  "Plus r = Seq r (Star r)"

definition PlusLazy :: "re \<Rightarrow> re" where
  "PlusLazy r = Seq r (StarLazy r)"

fun Seqs :: "re list \<Rightarrow> re" where
  "Seqs [] = Lit []"
| "Seqs [r] = r"
| "Seqs (r # rs) = Seq r (Seqs rs)"

text \<open>\<open>\s*\<close>, \<open>[^}]*\<close> and the argument with one level of nested braces
  \<open>(?:[^{}]|\{[^{}]*\})*\<close>, which many patterns of the program share.\<close>

definition Spaces :: re where
  "Spaces = Star (Cls True [] [py_isspace])"

definition NotIn :: "string \<Rightarrow> re" where
  "NotIn cs = Cls False cs []"

definition Braced :: re where
  "Braced = Star (Alt (NotIn ''{}'') (Seqs [Lit ''{'', Star (NotIn ''{}''), Lit ''}'']))"

text \<open>
  One match: the text between the end of the previous match and this one (\<open>m_gap\<close>),
  the matched text (\<open>m.group(0)\<close>) and the groups.
\<close>

record rm =
  m_gap :: string
  m_whole :: string
  m_groups :: groups

text \<open>\<open>m.group(n)\<close>; \<open>None\<close> when the group took no part in the match.\<close>

definition group :: "rm \<Rightarrow> nat \<Rightarrow> string option" where
  "group mt n = m_groups mt n"

text \<open>\<open>m.group(n)\<close> where the group always takes part, and \<open>m.group(n) or ''\<close>.\<close>

definition grp :: "rm \<Rightarrow> nat \<Rightarrow> string" where
  "grp mt n = (case m_groups mt n of None \<Rightarrow> [] | Some s \<Rightarrow> s)"

text \<open>
  A match attempt at one position: the matched text and the groups. With \<open>must\<close> set
  an empty match is refused: this is the engine's \<open>must_advance\<close> flag, set after an
  empty match.
\<close>

definition match_at :: "re \<Rightarrow> bool \<Rightarrow> char option \<Rightarrow> string \<Rightarrow> (string \<times> groups) option" where
  "match_at r must p s =
     (case rmatch r p s Map.empty
        (\<lambda>p' s' g'. if must \<and> take (length s - length s') s = [] then None
                     else Some (p', s', g')) of
        None \<Rightarrow> None
      | Some (p', s', g') \<Rightarrow> Some (take (length s - length s') s, g'))"

text \<open>\<open>re.match(r, s)\<close>.\<close>

definition re_match :: "re \<Rightarrow> string \<Rightarrow> rm option" where
  "re_match r s = (case match_at r False None s of None \<Rightarrow> None
     | Some (w, g) \<Rightarrow> Some \<lparr>m_gap = [], m_whole = w, m_groups = g\<rparr>)"

text \<open>
  \<open>re.finditer\<close>: the matches from the left, not overlapping, and the text after the
  last one. A character at which no match starts goes to the gap in front of the next
  match, or to the text after the last one.
\<close>

fun pass_char :: "char \<Rightarrow> rm list \<times> string \<Rightarrow> rm list \<times> string" where
  "pass_char c ([], rest) = ([], c # rest)"
| "pass_char c (mt # ms, rest) = (mt\<lparr>m_gap := c # m_gap mt\<rparr> # ms, rest)"

function finditer_go :: "re \<Rightarrow> bool \<Rightarrow> char option \<Rightarrow> string \<Rightarrow> rm list \<times> string" where
  "finditer_go r must p [] =
     (case match_at r must p [] of
        Some (w, g) \<Rightarrow> ([\<lparr>m_gap = [], m_whole = w, m_groups = g\<rparr>], [])
      | None \<Rightarrow> ([], []))"
| "finditer_go r must p (c # cs) =
     (case match_at r must p (c # cs) of
        Some (w, g) \<Rightarrow>
          (let (ms, rest) =
             (if w = [] then (if must then ([], c # cs) else finditer_go r True p (c # cs))
              else finditer_go r False (after_lit w p) (drop (length w) (c # cs)))
           in (\<lparr>m_gap = [], m_whole = w, m_groups = g\<rparr> # ms, rest))
      | None \<Rightarrow> pass_char c (finditer_go r False (Some c) cs))"
  by pat_completeness auto
termination
proof (relation "measure (\<lambda>(r, must, p, s). 2 * length s + (if must then 0 else 1))")
  fix r :: re and must :: bool and p :: "char option" and cs w :: string and c :: char
    and x :: "string \<times> groups" and g :: groups
  assume a: "match_at r must p (c # cs) = Some x" "(w, g) = x" "w \<noteq> []"
  from a(1,2) obtain n where "w = take n (c # cs)"
    by (auto simp: match_at_def split: option.splits if_splits)
  then have "length w \<le> length (c # cs)"
    by simp
  with a(3) have "2 * length (drop (length w) (c # cs)) + 1 < 2 * length (c # cs)"
    by (cases w) auto
  then show "((r, False, after_lit w p, drop (length w) (c # cs)), r, must, p, c # cs)
      \<in> measure (\<lambda>(r, must, p, s). 2 * length s + (if must then 0 else 1))"
    by auto
qed auto

definition finditer :: "re \<Rightarrow> string \<Rightarrow> rm list \<times> string" where
  "finditer r s = finditer_go r False None s"

text \<open>\<open>re.search(r, s)\<close>: the text before the first match, the match, the text after it.\<close>

fun search_go :: "re \<Rightarrow> char option \<Rightarrow> string \<Rightarrow> (string \<times> rm \<times> string) option" where
  "search_go r p [] =
     (case match_at r False p [] of
        Some (w, g) \<Rightarrow> Some ([], \<lparr>m_gap = [], m_whole = w, m_groups = g\<rparr>, [])
      | None \<Rightarrow> None)"
| "search_go r p (c # cs) =
     (case match_at r False p (c # cs) of
        Some (w, g) \<Rightarrow>
          Some ([], \<lparr>m_gap = [], m_whole = w, m_groups = g\<rparr>, drop (length w) (c # cs))
      | None \<Rightarrow>
          (case search_go r (Some c) cs of
             None \<Rightarrow> None
           | Some (pre, mt, post) \<Rightarrow> Some (c # pre, mt\<lparr>m_gap := c # m_gap mt\<rparr>, post)))"

definition re_search :: "re \<Rightarrow> string \<Rightarrow> (string \<times> rm \<times> string) option" where
  "re_search r s = search_go r None s"

text \<open>
  \<open>re.sub(r, f, s)\<close> with a callback \<open>f\<close>. In \<open>re_sub_st\<close> the callback also reads and
  updates a state, as the closures of the program do with their counters; the
  callbacks run from the left.
\<close>

fun sub_fold :: "(rm \<Rightarrow> 's \<Rightarrow> string \<times> 's) \<Rightarrow> rm list \<Rightarrow> 's \<Rightarrow> string \<times> 's" where
  "sub_fold f [] st = ([], st)"
| "sub_fold f (mt # ms) st =
     (let (rep, st1) = f mt st; (out, st2) = sub_fold f ms st1
      in (m_gap mt @ rep @ out, st2))"

definition re_sub_st :: "re \<Rightarrow> (rm \<Rightarrow> 's \<Rightarrow> string \<times> 's) \<Rightarrow> string \<Rightarrow> 's \<Rightarrow> string \<times> 's" where
  "re_sub_st r f s st =
     (let (ms, rest) = finditer r s; (out, st') = sub_fold f ms st in (out @ rest, st'))"

definition re_sub :: "re \<Rightarrow> (rm \<Rightarrow> string) \<Rightarrow> string \<Rightarrow> string" where
  "re_sub r f s = (let (ms, rest) = finditer r s in concat (map (\<lambda>mt. m_gap mt @ f mt) ms) @ rest)"


text \<open>\<open>re.split(r, s)\<close> for a pattern without capturing groups.\<close>

definition re_split :: "re \<Rightarrow> string \<Rightarrow> string list" where
  "re_split r s = (let (ms, rest) = finditer r s in map m_gap ms @ [rest])"

section \<open>Heading numbering\<close>

text \<open>
  \<open>_number_headings\<close>. The pattern is
  \<^verbatim>\<open>\\(subsection|subsubsection|paragraph)\*?\{((?:[^{}]|\{[^{}]*\})*)\}\<close>;
  the three counters are the one-element lists \<open>subsec\<close>, \<open>subsubsec\<close> and \<open>para\<close>
  of the source.
\<close>

definition heading_pat :: re where
  "heading_pat = Seqs [Lit (bs []),
     Grp 1 (Alt (Lit ''subsection'') (Alt (Lit ''subsubsection'') (Lit ''paragraph''))),
     Opt (Lit ''*''), Lit ''{'', Grp 2 Braced, Lit ''}'']"

text \<open>\<^verbatim>\<open>\\label\{[^}]*\}\s*\<close>\<close>

definition label_sp_pat :: re where
  "label_sp_pat = Seqs [Lit (bs ''label{''), Star (NotIn ''}''), Lit ''}'', Spaces]"

record heading_counters =
  subsec :: nat
  subsubsec :: nat
  para :: nat

text \<open>\<open>prefix = str(card_stt) if card_stt else ''\<close>\<close>

definition stt_prefix :: "int \<Rightarrow> string" where
  "stt_prefix card_stt = (if card_stt \<noteq> 0 then str_int card_stt else [])"

definition number_headings_repl :: "string \<Rightarrow> rm \<Rightarrow> heading_counters \<Rightarrow> string \<times> heading_counters" where
  "number_headings_repl pfx mt st =
     (let level = grp mt 1;
          title = py_strip (grp mt 2);
          title = re_sub label_sp_pat (\<lambda>_. []) title
      in if level = ''subsection'' then
           (let st = st\<lparr>subsec := subsec st + 1, subsubsec := 0, para := 0\<rparr>;
                num = (if pfx \<noteq> [] then pfx @ ''.'' @ str_nat (subsec st)
                       else str_nat (subsec st))
            in (''<h4>'' @ num @ ''. '' @ title @ ''</h4>'', st))
         else if level = ''subsubsection'' then
           (let st = st\<lparr>subsubsec := subsubsec st + 1, para := 0\<rparr>;
                num = (if pfx \<noteq> []
                       then pfx @ ''.'' @ str_nat (subsec st) @ ''.'' @ str_nat (subsubsec st)
                       else str_nat (subsec st) @ ''.'' @ str_nat (subsubsec st))
            in (''<h5>'' @ num @ ''. '' @ title @ ''</h5>'', st))
         else
           (let st = st\<lparr>para := para st + 1\<rparr>;
                num =
                  (if subsubsec st > 0 then
                     (if pfx \<noteq> []
                      then pfx @ ''.'' @ str_nat (subsec st) @ ''.'' @ str_nat (subsubsec st)
                             @ ''.'' @ str_nat (para st)
                      else str_nat (subsec st) @ ''.'' @ str_nat (subsubsec st)
                             @ ''.'' @ str_nat (para st))
                   else if subsec st > 0 then
                     (if pfx \<noteq> [] then pfx @ ''.'' @ str_nat (subsec st) @ ''.'' @ str_nat (para st)
                      else str_nat (subsec st) @ ''.'' @ str_nat (para st))
                   else
                     (if pfx \<noteq> [] then pfx @ ''.'' @ str_nat (para st)
                      else str_nat (para st)))
            in (''<h6>'' @ num @ ''. '' @ title @ ''</h6>'', st)))"

definition number_headings :: "string \<Rightarrow> int \<Rightarrow> string" where
  "number_headings text card_stt =
     fst (re_sub_st heading_pat (number_headings_repl (stt_prefix card_stt)) text
            \<lparr>subsec = 0, subsubsec = 0, para = 0\<rparr>)"

section \<open>Table conversion\<close>

text \<open>
  \<open>_table_repl\<close>, the replacement callback that \<open>convert_tabular\<close> uses for both
  \<open>longtable\<close> and \<open>tabular\<close>. First the patterns, in the order of the source:
  \<^verbatim>\<open>\\(endfirsthead|endhead|endfoot|endlastfoot)\s*\<close>,
  \<^verbatim>\<open>\\(toprule|midrule|bottomrule|hline)\s*\<close>,
  \<^verbatim>\<open>\\caption\{[^}]*\}\s*\<close>, \<^verbatim>\<open>\\label\{[^}]*\}\s*\<close>, \<^verbatim>\<open>\\rowcolor\{[^}]*\}\s*\<close>,
  \<^verbatim>\<open>\\definecolor\{[^}]*\}\{[^}]*\}\{[^}]*\}\s*\<close>,
  \<^verbatim>\<open>\\renewcommand\{[^}]*\}\{[^}]*\}\s*\<close>,
  \<^verbatim>\<open>\\textcolor\{[^}]*\}\{((?:[^{}]|\{[^{}]*\})*)\}\<close> and the row separator
  \<^verbatim>\<open>\\\\(?:\[[^\]]*\])?\<close>.
\<close>

definition Arg :: re where
  "Arg = Seqs [Lit ''{'', Star (NotIn ''}''), Lit ''}'']"

definition longtable_cmd_pat :: re where
  "longtable_cmd_pat = Seqs [Lit (bs []),
     Grp 1 (Alt (Lit ''endfirsthead'') (Alt (Lit ''endhead'') (Alt (Lit ''endfoot'') (Lit ''endlastfoot'')))),
     Spaces]"

definition rule_pat :: re where
  "rule_pat = Seqs [Lit (bs []),
     Grp 1 (Alt (Lit ''toprule'') (Alt (Lit ''midrule'') (Alt (Lit ''bottomrule'') (Lit ''hline'')))),
     Spaces]"

definition caption_sp_pat :: re where
  "caption_sp_pat = Seqs [Lit (bs ''caption''), Arg, Spaces]"

definition rowcolor_pat :: re where
  "rowcolor_pat = Seqs [Lit (bs ''rowcolor''), Arg, Spaces]"

definition definecolor_sp_pat :: re where
  "definecolor_sp_pat = Seqs [Lit (bs ''definecolor''), Arg, Arg, Arg, Spaces]"

definition renewcommand_sp_pat :: re where
  "renewcommand_sp_pat = Seqs [Lit (bs ''renewcommand''), Arg, Arg, Spaces]"

definition textcolor_pat :: re where
  "textcolor_pat = Seqs [Lit (bs ''textcolor''), Arg, Lit ''{'', Grp 1 Braced, Lit ''}'']"

definition row_sep_pat :: re where
  "row_sep_pat = Seqs [Lit (bs (bs [])), Opt (Seqs [Lit ''['', Star (NotIn '']''), Lit '']''])]"

text \<open>The commands that are removed from the table body before it is split into rows.\<close>

definition table_clean :: "string \<Rightarrow> string" where
  "table_clean content =
     (let content = re_sub longtable_cmd_pat (\<lambda>_. []) content;
          content = re_sub rule_pat (\<lambda>_. []) content;
          content = re_sub caption_sp_pat (\<lambda>_. []) content;
          content = re_sub label_sp_pat (\<lambda>_. []) content;
          content = re_sub rowcolor_pat (\<lambda>_. []) content;
          content = re_sub definecolor_sp_pat (\<lambda>_. []) content;
          content = re_sub renewcommand_sp_pat (\<lambda>_. []) content;
          content = re_sub textcolor_pat (\<lambda>mt. grp mt 1) content
      in content)"

text \<open>\<open>rows = [r.strip() for r in re.split(..., content) if r.strip()]\<close>\<close>

definition table_rows :: "string \<Rightarrow> string list" where
  "table_rows content = map py_strip (filter (\<lambda>r. py_strip r \<noteq> []) (re_split row_sep_pat content))"

text \<open>\<open>[c.strip() for c in row.split('&')]\<close> and \<open>'|'.join(...)\<close> of it.\<close>

definition row_cells :: "string \<Rightarrow> string list" where
  "row_cells row = map py_strip (split_char (CHR ''&'') row)"

definition cells_text :: "string \<Rightarrow> string" where
  "cells_text row = join ''|'' (row_cells row)"

text \<open>
  The loop that builds \<open>data_rows\<close>: \<open>seen_header\<close> is \<open>None\<close> until the first row has
  been seen; a later row whose joined cell text equals it is skipped.
\<close>

fun dedup_rows :: "string option \<Rightarrow> string list \<Rightarrow> string list" where
  "dedup_rows seen_header [] = []"
| "dedup_rows seen_header (row # rows) =
     (case seen_header of
        None \<Rightarrow> row # dedup_rows (Some (cells_text row)) rows
      | Some h \<Rightarrow> if cells_text row = h then dedup_rows seen_header rows
                  else row # dedup_rows seen_header rows)"

definition th_cell :: "string \<Rightarrow> string" where
  \<open>th_cell cell = ''  <th style="padding:10px 14px;font-weight:700;''
     @ ''background:#1a365d;color:#fff;">'' @ cell @ ''</th>\<newline>''\<close>

definition td_cell :: "string \<Rightarrow> string \<Rightarrow> string" where
  \<open>td_cell border cell = ''  <td style="padding:9px 14px;'' @ border @ ''">'' @ cell @ ''</td>\<newline>''\<close>

text \<open>The loop over \<open>enumerate(data_rows)\<close>; \<open>n\<close> is \<open>len(data_rows)\<close>, \<open>i\<close> the index.\<close>

fun render_rows :: "nat \<Rightarrow> nat \<Rightarrow> string list \<Rightarrow> string" where
  "render_rows n i [] = []"
| \<open>render_rows n i (row # rows) =
     (let cells = row_cells row in
      (if i = 0 then
         ''<thead><tr>\<newline>'' @ concat (map th_cell cells) @ ''</tr></thead>\<newline><tbody>\<newline>''
       else
         (let bg = (if i mod 2 = 1 then ''#fff'' else ''#f7fafc'');
              border = (if i < n - 1 then ''border-bottom:1px solid #e2e8f0;'' else [])
          in ''<tr style="background:'' @ bg @ '';">\<newline>''
               @ concat (map (td_cell border) cells) @ ''</tr>\<newline>''))
      @ render_rows n (i + 1) rows)\<close>

definition table_open :: string where
  \<open>table_open = ''<table style="width:100%;border-collapse:collapse;margin:16px 0;''
     @ ''border-radius:8px;overflow:hidden;''
     @ ''box-shadow:0 1px 4px rgba(0,0,0,0.08);font-size:0.95em;">\<newline>''\<close>

definition table_html :: "string list \<Rightarrow> string" where
  "table_html rows =
     (if rows = [] then []
      else (let data_rows = dedup_rows None rows
            in table_open @ render_rows (length data_rows) 0 data_rows @ ''</tbody></table>''))"

definition table_repl :: "rm \<Rightarrow> string" where
  "table_repl mt = table_html (table_rows (table_clean (py_strip (grp mt 1))))"

text \<open>
  \<open>convert_tabular\<close>. The column specification is \<^verbatim>\<open>\{(?:[^{}]|\{[^{}]*\})*\}\<close>; the
  two patterns are \<^verbatim>\<open>\\begin\{longtable\}\<close> + col_spec + \<^verbatim>\<open>(.*?)\\end\{longtable\}\<close>
  and the same for \<open>tabular\<close>, both with \<open>re.DOTALL\<close>.
\<close>

definition col_spec :: re where
  "col_spec = Seqs [Lit ''{'', Braced, Lit ''}'']"

definition pat_long :: re where
  "pat_long = Seqs [Lit (bs ''begin{longtable}''), col_spec, Grp 1 (StarLazy AnyNL),
     Lit (bs ''end{longtable}'')]"

definition pat_tab :: re where
  "pat_tab = Seqs [Lit (bs ''begin{tabular}''), col_spec, Grp 1 (StarLazy AnyNL),
     Lit (bs ''end{tabular}'')]"

definition convert_tabular :: "string \<Rightarrow> string" where
  "convert_tabular text =
     (let text = re_sub pat_long table_repl text;
          text = re_sub pat_tab table_repl text
      in text)"

text \<open>\<open>s.count(t)\<close> for a non-empty \<open>t\<close>, used to count the rows of an HTML table.\<close>

fun count_go :: "string \<Rightarrow> nat \<Rightarrow> string \<Rightarrow> nat" where
  "count_go t skip [] = 0"
| "count_go t (Suc k) (c # cs) = count_go t k cs"
| "count_go t 0 (c # cs) =
     (if startswith (c # cs) t then 1 + count_go t (length t - 1) cs else count_go t 0 cs)"

definition py_count :: "string \<Rightarrow> string \<Rightarrow> nat" where
  "py_count s t = count_go t 0 s"

section \<open>Environment conversion\<close>











section \<open>List conversion\<close>


definition list_name :: re where
  "list_name = Alt (Lit ''itemize'') (Lit ''enumerate'')"

definition list_begin :: re where
  "list_begin = Seqs [Lit (bs ''begin{''), list_name, Lit ''}'']"

definition list_end :: re where
  "list_end = Seqs [Lit (bs ''end{''), list_name, Lit ''}'']"

definition list_pat :: re where
  "list_pat = Seqs [Lit (bs ''begin{''), Grp 1 list_name, Lit ''}'',
     Grp 2 (StarLazy (Seqs [Look False list_begin, Look False list_end, AnyNL])),
     Lit (bs ''end{''), Backref 1, Lit ''}'']"

definition item_pat :: re where
  "item_pat = Seqs [Lit (bs ''item''), WordB]"

definition item_label_pat :: re where
  "item_label_pat = Seqs [Bol, Lit ''['', Star (NotIn '']''), Lit '']'', Spaces]"

text \<open>The loop over \<open>items\<close> that builds \<open>html_items\<close>.\<close>

fun html_items :: "string list \<Rightarrow> string list" where
  "html_items [] = []"
| "html_items (item # items) =
     (let item = py_strip item in
      if item = [] then html_items items
      else (let item = re_sub item_label_pat (\<lambda>_. []) item
            in (''<li>'' @ item @ ''</li>'') # html_items items))"

text \<open>The HTML for one match of \<open>list_pat\<close>.\<close>

definition list_html :: "rm \<Rightarrow> string" where
  "list_html mt =
     (let tag = (if grp mt 1 = ''itemize'' then ''ul'' else ''ol'');
          content = grp mt 2;
          items = re_split item_pat content;
          his = html_items items
      in if his \<noteq> [] then ''<'' @ tag @ ''>\<newline>'' @ join ''\<newline>'' his @ ''\<newline></'' @ tag @ ''>''
         else [])"

text \<open>
  One round of the loop \<open>for _ in range(20)\<close>: \<open>None\<close> is the \<open>break\<close>, otherwise the
  text with the match replaced, \<open>text[:m.start()] + html_list + text[m.end():]\<close>.
\<close>

definition list_step :: "string \<Rightarrow> string option" where
  "list_step text =
     (case re_search list_pat text of
        None \<Rightarrow> None
      | Some (pre, mt, post) \<Rightarrow> Some (pre @ list_html mt @ post))"

fun convert_lists_loop :: "nat \<Rightarrow> string \<Rightarrow> string" where
  "convert_lists_loop 0 text = text"
| "convert_lists_loop (Suc n) text =
     (case list_step text of None \<Rightarrow> text | Some text' \<Rightarrow> convert_lists_loop n text')"


section \<open>Images\<close>

text \<open>
  \<open>convert_includegraphics\<close> reads the file system and parses a number. What it reads is
  a parameter of the model: \<open>fs_isdir\<close> and \<open>fs_isfile\<close> are \<open>os.path.isdir\<close> and
  \<open>os.path.isfile\<close>, \<open>fs_read\<close> is the content of a file as a list of bytes, \<open>None\<close> when
  a statement of the \<open>try\<close> block raises. The value of \<open>float(s) * 100\<close> printed with
  \<open>:.0f\<close> depends on binary floating point arithmetic, which is not modelled: \<open>fmt_pct\<close>
  stands for that text. The lines written to \<open>sys.stderr\<close> are left out.
\<close>

record env =
  fs_isdir :: "string \<Rightarrow> bool"
  fs_isfile :: "string \<Rightarrow> bool"
  fs_read :: "string \<Rightarrow> string option"
  fmt_pct :: "string \<Rightarrow> string"

datatype error = ValueError

text \<open>The argument \<open>images_dir\<close>: \<open>None\<close>, one path, or a list of paths.\<close>

datatype images_dir = NoDir | Dir string | Dirs "string list"

text \<open>
  \<open>float(s)\<close> for a text \<open>s\<close> of digits and dots, which is what \<open>[\d.]+\<close> gives: it
  raises \<open>ValueError\<close> unless \<open>s\<close> has a digit and at most one dot.
\<close>

definition py_float_ok :: "string \<Rightarrow> bool" where
  "py_float_ok s = (list_ex py_isdigit s \<and> length (filter (\<lambda>c. c = CHR ''.'') s) \<le> 1)"

text \<open>
  The functions of \<open>os.path\<close> for POSIX paths. \<open>path_head p\<close> is \<open>p[:p.rfind('/') + 1]\<close>
  and \<open>path_base p\<close> is what follows it.
\<close>

definition path_head :: "string \<Rightarrow> string" where
  "path_head p = rev (dropWhile (\<lambda>c. c \<noteq> CHR ''/'') (rev p))"

definition path_base :: "string \<Rightarrow> string" where
  "path_base p = rev (takeWhile (\<lambda>c. c \<noteq> CHR ''/'') (rev p))"

definition dirname :: "string \<Rightarrow> string" where
  "dirname p =
     (let head = path_head p in
      if head \<noteq> [] \<and> head \<noteq> replicate (length head) CHR ''/''
      then rstrip (\<lambda>c. c = CHR ''/'') head else head)"

definition path_join :: "string \<Rightarrow> string \<Rightarrow> string" where
  "path_join a b =
     (if startswith b ''/'' then b
      else if a = [] \<or> last a = CHR ''/'' then a @ b
      else a @ ''/'' @ b)"

text \<open>
  \<open>os.path.splitext(p)[1]\<close>: the text from the last dot of the last component of the
  path, when a character other than a dot stands before that dot in the component.
\<close>

definition splitext_ext :: "string \<Rightarrow> string" where
  "splitext_ext p =
     (let base = path_base p in
      if CHR ''.'' \<in> set base
      then (let ext = rev (takeWhile (\<lambda>c. c \<noteq> CHR ''.'') (rev base));
                stem = take (length base - length ext - 1) base
            in if list_ex (\<lambda>c. c \<noteq> CHR ''.'') stem then ''.'' @ ext else [])
      else [])"

text \<open>\<open>s.lower()\<close> on the code points below 256.\<close>

definition lower_char :: "char \<Rightarrow> char" where
  "lower_char c = (let n = (of_char c :: nat) in
     if (65 \<le> n \<and> n \<le> 90) \<or> (192 \<le> n \<and> n \<le> 214) \<or> (216 \<le> n \<and> n \<le> 222)
     then char_of (n + 32) else c)"

definition lower :: "string \<Rightarrow> string" where
  "lower s = map lower_char s"

text \<open>\<open>base64.b64encode(data).decode('ascii')\<close>.\<close>

definition b64_char :: "nat \<Rightarrow> char" where
  "b64_char i = ''ABCDEFGHIJKLMNOPQRSTUVWXYZabcdefghijklmnopqrstuvwxyz0123456789+/'' ! i"

fun b64encode :: "string \<Rightarrow> string" where
  "b64encode [] = []"
| "b64encode [a] =
     (let n = (of_char a :: nat) * 65536
      in [b64_char (n div 262144), b64_char (n div 4096 mod 64), CHR ''='', CHR ''=''])"
| "b64encode [a, b] =
     (let n = (of_char a :: nat) * 65536 + of_char b * 256
      in [b64_char (n div 262144), b64_char (n div 4096 mod 64), b64_char (n div 64 mod 64),
          CHR ''=''])"
| "b64encode (a # b # c # rest) =
     (let n = (of_char a :: nat) * 65536 + of_char b * 256 + of_char c
      in [b64_char (n div 262144), b64_char (n div 4096 mod 64), b64_char (n div 64 mod 64),
          b64_char (n mod 64)] @ b64encode rest)"

definition MIME_TYPES :: "(string \<times> string) list" where
  "MIME_TYPES = [(''.png'', ''image/png''), (''.jpg'', ''image/jpeg''), (''.jpeg'', ''image/jpeg''),
     (''.gif'', ''image/gif''), (''.svg'', ''image/svg+xml''), (''.pdf'', ''application/pdf'')]"

text \<open>
  The patterns: \<^verbatim>\<open>\\includegraphics\s*(?:\[[^\]]*\])?\s*\{[^}]*\}\<close> when there is no
  directory, \<^verbatim>\<open>\\includegraphics\s*(?:\[([^\]]*)\])?\s*\{([^}]*)\}\<close> otherwise, and for the
  width \<^verbatim>\<open>width\s*=\s*([\d.]+)\\(textwidth|linewidth)\<close> and
  \<^verbatim>\<open>width\s*=\s*([\d.]+(?:cm|mm|in|pt|em))\<close>.
\<close>

definition includegraphics_strip_pat :: re where
  "includegraphics_strip_pat = Seqs [Lit (bs ''includegraphics''), Spaces,
     Opt (Seqs [Lit ''['', Star (NotIn '']''), Lit '']'']), Spaces,
     Lit ''{'', Star (NotIn ''}''), Lit ''}'']"

definition includegraphics_pat :: re where
  "includegraphics_pat = Seqs [Lit (bs ''includegraphics''), Spaces,
     Opt (Seqs [Lit ''['', Grp 1 (Star (NotIn '']'')), Lit '']'']), Spaces,
     Lit ''{'', Grp 2 (Star (NotIn ''}'')), Lit ''}'']"

definition digits_dots :: re where
  "digits_dots = Plus (Cls True ''.'' [py_isdigit])"

definition width_rel_pat :: re where
  "width_rel_pat = Seqs [Lit ''width'', Spaces, Lit ''='', Spaces, Grp 1 digits_dots, Lit (bs []),
     Grp 2 (Alt (Lit ''textwidth'') (Lit ''linewidth''))]"

definition width_abs_pat :: re where
  "width_abs_pat = Seqs [Lit ''width'', Spaces, Lit ''='', Spaces,
     Grp 1 (Seq digits_dots
       (Alt (Lit ''cm'') (Alt (Lit ''mm'') (Alt (Lit ''in'') (Alt (Lit ''pt'') (Lit ''em''))))))]"

text \<open>
  The loop that builds \<open>search_dirs\<close>: each directory, its parent and the parent's
  \<open>figures\<close>, \<open>fig\<close> and \<open>imgs\<close>, each path once. The state is \<open>(search_dirs, seen)\<close>.
\<close>

fun add_subs :: "string \<Rightarrow> string list \<Rightarrow> string list \<times> string set \<Rightarrow> string list \<times> string set" where
  "add_subs parent [] st = st"
| "add_subs parent (sub # subs) (search_dirs, seen) =
     (let sd = path_join parent sub in
      add_subs parent subs
        (if sd \<notin> seen then (search_dirs @ [sd], insert sd seen) else (search_dirs, seen)))"

definition add_dir :: "string list \<times> string set \<Rightarrow> string \<Rightarrow> string list \<times> string set" where
  "add_dir st d =
     (let (search_dirs, seen) = st;
          (search_dirs, seen) =
            (if d \<noteq> [] \<and> d \<notin> seen then (search_dirs @ [d], insert d seen)
             else (search_dirs, seen));
          parent = (if d \<noteq> [] then dirname d else [])
      in if parent \<noteq> [] \<and> parent \<notin> seen
         then add_subs parent [''figures'', ''fig'', ''imgs'']
                (search_dirs @ [parent], insert parent seen)
         else (search_dirs, seen))"

definition build_search_dirs :: "string list \<Rightarrow> string list" where
  "build_search_dirs images_dirs = fst (foldl add_dir ([], {}) images_dirs)"

text \<open>The search for the file: the name as it is, then with each extension.\<close>

fun find_ext :: "env \<Rightarrow> string \<Rightarrow> string list \<Rightarrow> string option" where
  "find_ext e candidate [] = None"
| "find_ext e candidate (ext # exts) =
     (if fs_isfile e (candidate @ ext) then Some (candidate @ ext)
      else find_ext e candidate exts)"

fun find_image :: "env \<Rightarrow> string list \<Rightarrow> string \<Rightarrow> string option" where
  "find_image e [] filename = None"
| "find_image e (d # ds) filename =
     (if d = [] \<or> \<not> fs_isdir e d then find_image e ds filename
      else (let candidate = path_join d filename in
            if fs_isfile e candidate then Some candidate
            else (case find_ext e candidate [''.png'', ''.jpg'', ''.jpeg'', ''.svg'', ''.pdf''] of
                    Some p \<Rightarrow> Some p
                  | None \<Rightarrow> find_image e ds filename)))"

definition image_placeholder :: "string \<Rightarrow> string \<Rightarrow> string" where
  \<open>image_placeholder kind filename =
     ''<p class="table-caption" style="text-align:center"><em>['' @ kind @ '': '' @ filename
       @ '']</em></p>''\<close>

definition img_tag :: "string \<Rightarrow> string \<Rightarrow> string \<Rightarrow> string \<Rightarrow> string" where
  \<open>img_tag mime data style filename =
     ''<img src="data:'' @ mime @ '';base64,'' @ data @ ''" style="'' @ style @ ''" alt="''
       @ filename @ ''">''\<close>

text \<open>The width in percent: \<open>float\<close> raises on a text that is not a number.\<close>

definition width_rel :: "env \<Rightarrow> string \<Rightarrow> error + string list" where
  "width_rel e opts =
     (case re_search width_rel_pat opts of
        None \<Rightarrow> Inr []
      | Some (pre, w, post) \<Rightarrow>
          if py_float_ok (grp w 1) then Inr [''max-width:'' @ fmt_pct e (grp w 1) @ ''%'']
          else Inl ValueError)"

definition width_abs :: "string \<Rightarrow> string list" where
  "width_abs opts =
     (case re_search width_abs_pat opts of
        None \<Rightarrow> []
      | Some (pre, w2, post) \<Rightarrow> [''max-width:'' @ grp w2 1])"

text \<open>What follows the search for the file, from \<open>if not img_path\<close> on.\<close>

definition embed_image :: "env \<Rightarrow> string list \<Rightarrow> string \<Rightarrow> string option \<Rightarrow> string" where
  "embed_image e style_parts filename img_path =
     (case img_path of
        None \<Rightarrow> image_placeholder ''Image'' filename
      | Some path \<Rightarrow>
          (let ext = lower (splitext_ext path);
               mime = (case map_of MIME_TYPES ext of Some t \<Rightarrow> t | None \<Rightarrow> ''image/png'')
           in if ext = ''.pdf'' then image_placeholder ''PDF Image'' filename
              else (case fs_read e path of
                      Some bytes \<Rightarrow>
                        (let data = b64encode bytes;
                             style = (if style_parts \<noteq> [] then join ''; '' style_parts
                                      else ''max-width:80%'');
                             style = style @ ''; display:block; margin:0.8em auto''
                         in img_tag mime data style filename)
                    | None \<Rightarrow> image_placeholder ''Image'' filename)))"

text \<open>The callback \<open>_repl\<close>.\<close>

definition includegraphics_repl :: "env \<Rightarrow> string list \<Rightarrow> rm \<Rightarrow> error + string" where
  "includegraphics_repl e images_dirs mt =
     (let opts = grp mt 1;
          filename = py_strip (grp mt 2)
      in case width_rel e opts of
           Inl err \<Rightarrow> Inl err
         | Inr parts \<Rightarrow>
             (let style_parts = parts @ width_abs opts;
                  search_dirs = build_search_dirs images_dirs;
                  img_path = find_image e search_dirs filename
              in Inr (embed_image e style_parts filename img_path)))"

text \<open>
  \<open>re.sub\<close> with a callback that can raise: the first exception ends the substitution.
\<close>

fun sub_fold_err :: "(rm \<Rightarrow> error + string) \<Rightarrow> rm list \<Rightarrow> error + string" where
  "sub_fold_err f [] = Inr []"
| "sub_fold_err f (mt # ms) =
     (case f mt of
        Inl err \<Rightarrow> Inl err
      | Inr rep \<Rightarrow>
          (case sub_fold_err f ms of
             Inl err \<Rightarrow> Inl err
           | Inr out \<Rightarrow> Inr (m_gap mt @ rep @ out)))"

definition re_sub_err :: "re \<Rightarrow> (rm \<Rightarrow> error + string) \<Rightarrow> string \<Rightarrow> error + string" where
  "re_sub_err r f s =
     (let (ms, rest) = finditer r s in
      case sub_fold_err f ms of Inl err \<Rightarrow> Inl err | Inr out \<Rightarrow> Inr (out @ rest))"

definition convert_includegraphics :: "env \<Rightarrow> string \<Rightarrow> images_dir \<Rightarrow> error + string" where
  "convert_includegraphics e text images_dir =
     (case images_dir of
        NoDir \<Rightarrow> Inr (re_sub includegraphics_strip_pat (\<lambda>_. []) text)
      | Dir d \<Rightarrow> re_sub_err includegraphics_pat (includegraphics_repl e [d]) text
      | Dirs ds \<Rightarrow> re_sub_err includegraphics_pat (includegraphics_repl e ds) text)"

section \<open>Comments and code\<close>

text \<open>
  \<open>strip_comments\<close>: on each line the text from a \<open>%\<close> with no backslash in front of it
  to the end of the line is removed, \<^verbatim>\<open>(?<!\\)%.*$\<close>.
\<close>

definition comment_pat :: re where
  "comment_pat = Seqs [Behind False (CHR 0x5C), Lit ''%'', Star Dot, Eol]"

definition strip_comments :: "string \<Rightarrow> string" where
  "strip_comments text =
     join [nl] (map (\<lambda>line. re_sub comment_pat (\<lambda>_. []) line) (split_char nl text))"

text \<open>
  \<open>extract_code_environments\<close>. The state of its closures: the number of the next
  placeholder, the number of captions so far, and the dictionary \<open>placeholders\<close> in the
  order of insertion (the keys differ, so no entry is ever overwritten).
\<close>

record code_state =
  counter :: nat
  listing_counter :: nat
  placeholders :: "(string \<times> string) list"

definition code_key :: "nat \<Rightarrow> string" where
  "code_key n = ''@@CODE_BLOCK_'' @ str_nat n @ ''@@''"

definition placeholder :: "string \<Rightarrow> code_state \<Rightarrow> string \<times> code_state" where
  "placeholder html st =
     (let key = code_key (counter st)
      in (key, st\<lparr>counter := counter st + 1, placeholders := placeholders st @ [(key, html)]\<rparr>))"

definition escape :: "string \<Rightarrow> string" where
  "escape s = replace ''>'' ''&gt;'' (replace ''<'' ''&lt;'' (replace ''&'' ''&amp;'' s))"

definition CODE_STYLE :: string where
  "CODE_STYLE = ''background:#f6f8fa; border:1px solid #e1e4e8; border-radius:6px; ''
     @ ''padding:1em; overflow-x:auto; font-size:0.9em; line-height:1.5''"

definition CAP_STYLE :: string where
  "CAP_STYLE = ''text-align:center;font-size:0.9em;color:#586069''"

definition INLINE_STYLE :: string where
  "INLINE_STYLE = ''background:#f0f0f0; padding:0.15em 0.4em; border-radius:3px; ''
     @ ''font-family:monospace; font-size:0.9em''"

text \<open>
  The patterns of the blocks, all with \<open>re.DOTALL\<close>:
  \<^verbatim>\<open>\\begin\{verbatim\}(.*?)\\end\{verbatim\}\<close>,
  \<^verbatim>\<open>\\begin\{lstlisting\}\s*(?:\[([^\]]*)\])?\s*(.*?)\\end\{lstlisting\}\<close> and
  \<^verbatim>\<open>\\begin\{minted\}\s*(?:\[([^\]]*)\])?\s*\{(\w+)\}\s*(.*?)\\end\{minted\}\<close>;
  in the options \<^verbatim>\<open>language\s*=\s*(\w+)\<close> and
  \<^verbatim>\<open>caption\s*=\s*\{?((?:[^},]|\{[^}]*\})*)\<close>.
\<close>

definition verbatim_pat :: re where
  "verbatim_pat = Seqs [Lit (bs ''begin{verbatim}''), Grp 1 (StarLazy AnyNL),
     Lit (bs ''end{verbatim}'')]"

definition Word :: re where
  "Word = Plus (Cls True [] [py_isword])"

definition lst_pat :: re where
  "lst_pat = Seqs [Lit (bs ''begin{lstlisting}''), Spaces,
     Opt (Seqs [Lit ''['', Grp 1 (Star (NotIn '']'')), Lit '']'']), Spaces,
     Grp 2 (StarLazy AnyNL), Lit (bs ''end{lstlisting}'')]"

definition minted_pat :: re where
  "minted_pat = Seqs [Lit (bs ''begin{minted}''), Spaces,
     Opt (Seqs [Lit ''['', Grp 1 (Star (NotIn '']'')), Lit '']'']), Spaces,
     Lit ''{'', Grp 2 Word, Lit ''}'', Spaces,
     Grp 3 (StarLazy AnyNL), Lit (bs ''end{minted}'')]"

definition language_pat :: re where
  "language_pat = Seqs [Lit ''language'', Spaces, Lit ''='', Spaces, Grp 1 Word]"

definition caption_opt_pat :: re where
  "caption_opt_pat = Seqs [Lit ''caption'', Spaces, Lit ''='', Spaces, Opt (Lit ''{''),
     Grp 1 (Star (Alt (NotIn ''},'') (Seqs [Lit ''{'', Star (NotIn ''}''), Lit ''}''])))]"

definition pre_block :: "string \<Rightarrow> string \<Rightarrow> string" where
  \<open>pre_block label content =
     ''<pre style="'' @ CODE_STYLE @ ''"'' @ label @ ''><code>'' @ content @ ''</code></pre>''\<close>

definition verbatim_repl :: "rm \<Rightarrow> code_state \<Rightarrow> string \<times> code_state" where
  "verbatim_repl mt st =
     (let content = escape (py_strip (grp mt 1));
          html = pre_block [] content
      in placeholder html st)"

text \<open>The caption found in the options, \<open>''\<close> when there is none.\<close>

definition caption_of :: "string \<Rightarrow> string" where
  "caption_of opts =
     (case re_search caption_opt_pat opts of
        None \<Rightarrow> []
      | Some (pre, cap_m, post) \<Rightarrow> py_strip_chars ''{}'' (py_strip (grp cap_m 1)))"

text \<open>The numbered caption, which counts the captions, and the badge with the language.\<close>

definition cap_html :: "string \<Rightarrow> string \<Rightarrow> code_state \<Rightarrow> string \<times> code_state" where
  \<open>cap_html pfx caption st =
     (if caption \<noteq> [] then
        (let n = listing_counter st + 1;
             num = (if pfx \<noteq> [] then pfx @ ''.'' @ str_nat n else str_nat n)
         in (''<p style="'' @ CAP_STYLE @ ''">'' @ ''<em>Listing '' @ num @ '': '' @ caption
               @ ''</em></p>'',
             st\<lparr>listing_counter := n\<rparr>))
      else ([], st))\<close>

definition lang_badge :: "string \<Rightarrow> string" where
  \<open>lang_badge lang =
     (if lang \<noteq> [] then
        ''<div style="text-align:right;font-size:0.8em;color:#6a737d;''
          @ ''margin-bottom:0.3em">'' @ lang @ ''</div>''
      else [])\<close>

definition lst_repl :: "string \<Rightarrow> rm \<Rightarrow> code_state \<Rightarrow> string \<times> code_state" where
  \<open>lst_repl pfx mt st =
     (let opts = grp mt 1;
          content = escape (py_strip (grp mt 2));
          lang = (case re_search language_pat opts of
                    None \<Rightarrow> []
                  | Some (pre, lang_m, post) \<Rightarrow> grp lang_m 1);
          caption = caption_of opts;
          (cap, st) = cap_html pfx caption st;
          label = (if lang \<noteq> [] then '' data-lang="'' @ lang @ ''"'' else []);
          html = lang_badge lang @ pre_block label content @ cap
      in placeholder html st)\<close>

definition minted_repl :: "string \<Rightarrow> rm \<Rightarrow> code_state \<Rightarrow> string \<times> code_state" where
  "minted_repl pfx mt st =
     (let opts = grp mt 1;
          lang = grp mt 2;
          content = escape (py_strip (grp mt 3));
          caption = caption_of opts;
          (cap, st) = cap_html pfx caption st;
          html = lang_badge lang @ pre_block [] content @ cap
      in placeholder html st)"

text \<open>
  Code inside a line: \<^verbatim>\<open>\\verb\|([^|]*)\|\<close>, \<^verbatim>\<open>\\verb\+([^+]*)\+\<close>,
  \<^verbatim>\<open>\\lstinline\|([^|]*)\|\<close>, \<^verbatim>\<open>\\lstinline\{([^}]*)\}\<close> and
  \<^verbatim>\<open>\\mintinline\{\w+\}\{([^}]*)\}\<close>. It is put into the text at once, with no
  placeholder.
\<close>

definition delimited_pat :: "string \<Rightarrow> char \<Rightarrow> char \<Rightarrow> re" where
  "delimited_pat cmd l r = Seqs [Lit (bs cmd), Lit [l], Grp 1 (Star (NotIn [r])), Lit [r]]"

definition mintinline_pat :: re where
  "mintinline_pat = Seqs [Lit (bs ''mintinline{''), Word, Lit ''}'', Lit ''{'',
     Grp 1 (Star (NotIn ''}'')), Lit ''}'']"

definition inline_code :: "rm \<Rightarrow> string" where
  \<open>inline_code mt = ''<code style="'' @ INLINE_STYLE @ ''">'' @ escape (grp mt 1) @ ''</code>''\<close>

definition extract_code_environments :: "string \<Rightarrow> int \<Rightarrow> string \<times> (string \<times> string) list" where
  "extract_code_environments text card_stt =
     (let st = \<lparr>counter = 0, listing_counter = 0, placeholders = []\<rparr>;
          pfx = stt_prefix card_stt;
          (text, st) = re_sub_st verbatim_pat verbatim_repl text st;
          (text, st) = re_sub_st lst_pat (lst_repl pfx) text st;
          (text, st) = re_sub_st minted_pat (minted_repl pfx) text st;
          text = re_sub (delimited_pat ''verb'' CHR ''|'' CHR ''|'') inline_code text;
          text = re_sub (delimited_pat ''verb'' CHR ''+'' CHR ''+'') inline_code text;
          text = re_sub (delimited_pat ''lstinline'' CHR ''|'' CHR ''|'') inline_code text;
          text = re_sub (delimited_pat ''lstinline'' CHR ''{'' CHR ''}'') inline_code text;
          text = re_sub mintinline_pat inline_code text
      in (text, placeholders st))"

text \<open>\<open>restore_code_placeholders\<close>: each key in turn is replaced by its HTML.\<close>

definition restore_code_placeholders :: "string \<Rightarrow> (string \<times> string) list \<Rightarrow> string" where
  "restore_code_placeholders text phs = foldl (\<lambda>text (key, html). replace key html text) text phs"

text \<open>
  The first two statements of \<open>latex_to_html\<close>: the comments are stripped from the whole
  text, then the code is taken out of what is left.
\<close>

definition code_stage :: "string \<Rightarrow> int \<Rightarrow> string \<times> (string \<times> string) list" where
  "code_stage tex_content card_stt = extract_code_environments (strip_comments tex_content) card_stt"

section \<open>Math protection\<close>

text \<open>
  \<open>protect_math\<close> replaces each span of math by the placeholder
  \<^verbatim>\<open>'\x00MATH_%d\x00'\<close> and keeps the text to restore in \<open>store\<close>. The state of its
  closures is \<open>store\<close> and the number of the next placeholder.
\<close>

record math_state =
  store :: "string list"
  math_counter :: nat

definition MATH_PLACEHOLDER :: "nat \<Rightarrow> string" where
  "MATH_PLACEHOLDER n = CHR 0x00 # ''MATH_'' @ str_nat n @ [CHR 0x00]"

definition save_text :: "string \<Rightarrow> math_state \<Rightarrow> string \<times> math_state" where
  "save_text math st =
     (MATH_PLACEHOLDER (math_counter st),
      st\<lparr>store := store st @ [math], math_counter := math_counter st + 1\<rparr>)"

definition save :: "rm \<Rightarrow> math_state \<Rightarrow> string \<times> math_state" where
  "save mt st = save_text (m_whole mt) st"

text \<open>\<open>m.group(0)[2:-2]\<close> is the match without \<open>\[\<close> and \<open>\]\<close>.\<close>

definition save_display :: "rm \<Rightarrow> math_state \<Rightarrow> string \<times> math_state" where
  "save_display mt st =
     (let content = drop 2 (take (length (m_whole mt) - 2) (m_whole mt))
      in save_text (''$$'' @ content @ ''$$'') st)"

text \<open>
  \<open>save_aligned\<close> looks in the match for
  \<^verbatim>\<open>\\begin\{[^}]*\}(.*?)\\end\{[^}]*\}\<close> with \<open>re.DOTALL\<close> and keeps what group 1 holds.
\<close>

definition inner_pat :: re where
  "inner_pat = Seqs [Lit (bs ''begin{''), Star (NotIn ''}''), Lit ''}'', Grp 1 (StarLazy AnyNL),
     Lit (bs ''end{''), Star (NotIn ''}''), Lit ''}'']"

definition save_aligned :: "rm \<Rightarrow> math_state \<Rightarrow> string \<times> math_state" where
  "save_aligned mt st =
     (let content = m_whole mt in
      case re_search inner_pat content of
        Some (pre, inner, post) \<Rightarrow>
          save_text (''$$'' @ bs ''begin{aligned}'' @ grp inner 1 @ bs ''end{aligned}$$'') st
      | None \<Rightarrow> save_text (''$$'' @ content @ ''$$'') st)"

text \<open>
  The patterns: \<^verbatim>\<open>\$\$.*?\$\$\<close> and \<^verbatim>\<open>(?<!\\)\\\[.*?\\\]\<close> with \<open>re.DOTALL\<close>, for each
  environment \<^verbatim>\<open>\\begin\{env\}.*?\\end\{env\}\<close> with \<open>re.DOTALL\<close>, and
  \<^verbatim>\<open>(?<!\$)\$(?!\$)((?:[^$\\]|\\.)+?)\$(?!\$)\<close>.
\<close>

definition dollars_pat :: re where
  "dollars_pat = Seqs [Lit ''$$'', StarLazy AnyNL, Lit ''$$'']"

definition display_pat :: re where
  "display_pat = Seqs [Behind False (CHR 0x5C), Lit (bs ''[''), StarLazy AnyNL, Lit (bs '']'')]"

definition math_envs :: "string list" where
  "math_envs = [''align'', ''align*'', ''equation'', ''equation*'',
     ''gather'', ''gather*'', ''multline'', ''multline*'']"

definition math_env_pat :: "string \<Rightarrow> re" where
  "math_env_pat env = Seqs [Lit (bs ''begin{'' @ env @ ''}''), StarLazy AnyNL,
     Lit (bs ''end{'' @ env @ ''}'')]"

definition inline_pat :: re where
  "inline_pat = Seqs [Behind False (CHR ''$''), Lit ''$'', Look False (Lit ''$''),
     Grp 1 (PlusLazy (Alt (NotIn (''$'' @ bs [])) (Seq (Lit (bs [])) Dot))),
     Lit ''$'', Look False (Lit ''$'')]"

definition protect_math :: "string \<Rightarrow> string \<times> string list" where
  "protect_math text =
     (let st = \<lparr>store = [], math_counter = 0\<rparr>;
          (text, st) = re_sub_st dollars_pat save text st;
          (text, st) = re_sub_st display_pat save_display text st;
          (text, st) = foldl (\<lambda>(text, st) env. re_sub_st (math_env_pat env) save_aligned text st)
                         (text, st) math_envs;
          (text, st) = re_sub_st inline_pat save text st
      in (text, store st))"

text \<open>\<open>restore_math\<close>: the placeholders are replaced in the order of their numbers.\<close>

definition restore_math :: "string \<Rightarrow> string list \<Rightarrow> string" where
  "restore_math text st =
     foldl (\<lambda>text (i, math). replace (MATH_PLACEHOLDER i) math text) text
       (zip [0..<length st] st)"

section \<open>Figure and table numbers\<close>













section \<open>Evaluation\<close>

text \<open>
  The definitions above follow the program. To compute with them on a concrete text,
  the rest of this section gives a first-order reading of the matcher, in which the
  continuation is a list of pending items, and one auxiliary function for every choice
  a scanning function makes per character. The equations that connect them to the
  definitions above are proved in the next section.
\<close>

datatype item = R re | Progress string | SetGrp nat string

fun run :: "item list \<Rightarrow> char option \<Rightarrow> string \<Rightarrow> groups \<Rightarrow> mstate option" where
  "run [] p s g = Some (p, s, g)"
| "run (R r # ks) p s g = rmatch r p s g (\<lambda>p' s' g'. run ks p' s' g')"
| "run (Progress s0 # ks) p s g = (if length s < length s0 then run ks p s g else None)"
| "run (SetGrp n s0 # ks) p s g = run ks p s (g(n \<mapsto> take (length s0 - length s) s0))"

fun guard :: "bool \<Rightarrow> item list \<Rightarrow> char option \<Rightarrow> string \<Rightarrow> groups \<Rightarrow> mstate option" where
  "guard True ks p s g = run ks p s g"
| "guard False ks p s g = None"

fun orelse :: "mstate option \<Rightarrow> item list \<Rightarrow> char option \<Rightarrow> string \<Rightarrow> groups \<Rightarrow> mstate option" where
  "orelse (Some r) ks p s g = Some r"
| "orelse None ks p s g = run ks p s g"

fun backref :: "string option \<Rightarrow> item list \<Rightarrow> char option \<Rightarrow> string \<Rightarrow> groups \<Rightarrow> mstate option" where
  "backref None ks p s g = None"
| "backref (Some l) ks p s g = run (R (Lit l) # ks) p s g"

fun look :: "bool \<Rightarrow> mstate option \<Rightarrow> item list \<Rightarrow> char option \<Rightarrow> string \<Rightarrow> groups \<Rightarrow> mstate option" where
  "look True (Some (p', s', g')) ks p s g = run ks p s g'"
| "look True None ks p s g = None"
| "look False (Some r) ks p s g = None"
| "look False None ks p s g = run ks p s g"

text \<open>Lengths compared, and pieces of a list cut off, by walking two lists together.\<close>

fun lt_len :: "'a list \<Rightarrow> 'b list \<Rightarrow> bool" where
  "lt_len xs [] = False"
| "lt_len [] (y # ys) = True"
| "lt_len (x # xs) (y # ys) = lt_len xs ys"

fun drop_len :: "'b list \<Rightarrow> 'a list \<Rightarrow> 'a list" where
  "drop_len [] s = s"
| "drop_len (x # w) [] = []"
| "drop_len (x # w) (c # s) = drop_len w s"

fun take_len :: "'b list \<Rightarrow> 'a list \<Rightarrow> 'a list" where
  "take_len [] s = []"
| "take_len (x # w) [] = []"
| "take_len (x # w) (c # s) = c # take_len w s"

definition consumed :: "string \<Rightarrow> string \<Rightarrow> string" where
  "consumed s s' = take_len (drop_len s' s) s"

fun word_at :: "string \<Rightarrow> bool" where
  "word_at [] = False"
| "word_at (c # cs) = py_isword c"

fun word_before :: "char option \<Rightarrow> bool" where
  "word_before None = False"
| "word_before (Some c) = py_isword c"

text \<open>
  A pattern cannot match at a position whose first character fails \<open>first_ok\<close>; the
  scanning functions then pass the character without running the matcher.
\<close>

fun zero_width :: "re \<Rightarrow> bool" where
  "zero_width (Lit l) = (l = [])"
| "zero_width (Look pos a) = True"
| "zero_width (Behind pos c) = True"
| "zero_width WordB = True"
| "zero_width Bol = True"
| "zero_width Eol = True"
| "zero_width r = False"

fun first_ok :: "re \<Rightarrow> char \<Rightarrow> bool" where
  "first_ok (Lit []) c = True"
| "first_ok (Lit (c0 # l)) c = (c0 = c)"
| "first_ok Dot c = (c \<noteq> nl)"
| "first_ok (Cls pos cs fs) c = ((c \<in> set cs \<or> list_ex (\<lambda>f. f c) fs) = pos)"
| "first_ok (Seq a b) c = (first_ok a c \<and> (zero_width a \<longrightarrow> first_ok b c))"
| "first_ok (Alt a b) c = (first_ok a c \<or> first_ok b c)"
| "first_ok (Grp n a) c = first_ok a c"
| "first_ok r c = True"

fun fo_zw :: "bool \<Rightarrow> re \<Rightarrow> char \<Rightarrow> bool" where
  "fo_zw False b c = True"
| "fo_zw True b c = first_ok b c"

fun fo_seq :: "bool \<Rightarrow> re \<Rightarrow> re \<Rightarrow> char \<Rightarrow> bool" where
  "fo_seq False a b c = False"
| "fo_seq True a b c = fo_zw (zero_width a) b c"

fun fo_alt :: "bool \<Rightarrow> re \<Rightarrow> char \<Rightarrow> bool" where
  "fo_alt True b c = True"
| "fo_alt False b c = first_ok b c"

fun at_eol :: "string \<Rightarrow> bool" where
  "at_eol [] = True"
| "at_eol [c] = (c = nl)"
| "at_eol (c # d # cs) = False"

fun sp_if :: "bool \<Rightarrow> string \<Rightarrow> string \<Rightarrow> string option" where
  "sp_if True cs ds = strip_prefix cs ds"
| "sp_if False cs ds = None"

fun split_step :: "bool \<Rightarrow> char \<Rightarrow> string list \<Rightarrow> string list" where
  "split_step True c r = [] # r"
| "split_step False c [] = [[c]]"
| "split_step False c (w # ws) = (c # w) # ws"

fun rep_if :: "bool \<Rightarrow> string \<Rightarrow> string \<Rightarrow> char \<Rightarrow> string \<Rightarrow> string" where
  "rep_if True old new c cs = new @ replace_go old new (length old - 1) cs"
| "rep_if False old new c cs = c # replace_go old new 0 cs"

fun rs_last :: "bool \<Rightarrow> char \<Rightarrow> string" where
  "rs_last True c = []"
| "rs_last False c = [c]"

fun rs_step :: "(char \<Rightarrow> bool) \<Rightarrow> char \<Rightarrow> string \<Rightarrow> string" where
  "rs_step P c [] = rs_last (P c) c"
| "rs_step P c (d # r) = c # d # r"

fun ls_if :: "bool \<Rightarrow> (char \<Rightarrow> bool) \<Rightarrow> char \<Rightarrow> string \<Rightarrow> string" where
  "ls_if True P c cs = lstrip P cs"
| "ls_if False P c cs = c # cs"

fun adv :: "bool \<Rightarrow> string \<Rightarrow> item list" where
  "adv True s = [Progress s]"
| "adv False s = []"

fun ma_res :: "mstate option \<Rightarrow> string \<Rightarrow> (string \<times> groups) option" where
  "ma_res None s = None"
| "ma_res (Some (p', s', g')) s = Some (consumed s s', g')"

fun fi_cons :: "string \<Rightarrow> groups \<Rightarrow> rm list \<times> string \<Rightarrow> rm list \<times> string" where
  "fi_cons w g (ms, rest) = (\<lparr>m_gap = [], m_whole = w, m_groups = g\<rparr> # ms, rest)"

fun fi_end :: "(string \<times> groups) option \<Rightarrow> rm list \<times> string" where
  "fi_end None = ([], [])"
| "fi_end (Some (w, g)) = ([\<lparr>m_gap = [], m_whole = w, m_groups = g\<rparr>], [])"

fun fi_hit :: "bool \<Rightarrow> bool \<Rightarrow> string \<Rightarrow> groups \<Rightarrow> re \<Rightarrow> char option \<Rightarrow> string
    \<Rightarrow> rm list \<times> string" where
  "fi_hit False must w g r p s = fi_cons w g (finditer_go r False (after_lit w p) (drop_len w s))"
| "fi_hit True True w g r p s = fi_cons w g ([], s)"
| "fi_hit True False w g r p s = fi_cons w g (finditer_go r True p s)"

fun fi_step :: "(string \<times> groups) option \<Rightarrow> re \<Rightarrow> bool \<Rightarrow> char option \<Rightarrow> char \<Rightarrow> string
    \<Rightarrow> rm list \<times> string" where
  "fi_step None r must p c cs = pass_char c (finditer_go r False (Some c) cs)"
| "fi_step (Some (w, g)) r must p c cs = fi_hit (w = []) must w g r p (c # cs)"

fun fi_try :: "bool \<Rightarrow> re \<Rightarrow> bool \<Rightarrow> char option \<Rightarrow> char \<Rightarrow> string \<Rightarrow> rm list \<times> string" where
  "fi_try False r must p c cs = pass_char c (finditer_go r False (Some c) cs)"
| "fi_try True r must p c cs = fi_step (match_at r must p (c # cs)) r must p c cs"

fun se_pass :: "char \<Rightarrow> (string \<times> rm \<times> string) option \<Rightarrow> (string \<times> rm \<times> string) option" where
  "se_pass c None = None"
| "se_pass c (Some (pre, mt, post)) = Some (c # pre, mt\<lparr>m_gap := c # m_gap mt\<rparr>, post)"

fun se_end :: "(string \<times> groups) option \<Rightarrow> (string \<times> rm \<times> string) option" where
  "se_end None = None"
| "se_end (Some (w, g)) = Some ([], \<lparr>m_gap = [], m_whole = w, m_groups = g\<rparr>, [])"

fun se_step :: "(string \<times> groups) option \<Rightarrow> re \<Rightarrow> char \<Rightarrow> string
    \<Rightarrow> (string \<times> rm \<times> string) option" where
  "se_step None r c cs = se_pass c (search_go r (Some c) cs)"
| "se_step (Some (w, g)) r c cs =
     Some ([], \<lparr>m_gap = [], m_whole = w, m_groups = g\<rparr>, drop_len w (c # cs))"

fun se_try :: "bool \<Rightarrow> re \<Rightarrow> char option \<Rightarrow> char \<Rightarrow> string \<Rightarrow> (string \<times> rm \<times> string) option" where
  "se_try False r p c cs = se_pass c (search_go r (Some c) cs)"
| "se_try True r p c cs = se_step (match_at r False p (c # cs)) r c cs"

fun sub_join :: "string \<Rightarrow> string \<Rightarrow> string \<times> 's \<Rightarrow> string \<times> 's" where
  "sub_join gap rep (out, st) = (gap @ rep @ out, st)"

fun sub_step :: "string \<times> 's \<Rightarrow> (rm \<Rightarrow> 's \<Rightarrow> string \<times> 's) \<Rightarrow> rm \<Rightarrow> rm list \<Rightarrow> string \<times> 's" where
  "sub_step (rep, st) f mt ms = sub_join (m_gap mt) rep (sub_fold f ms st)"

fun sub_end :: "string \<times> 's \<Rightarrow> string \<Rightarrow> string \<times> 's" where
  "sub_end (out, st) rest = (out @ rest, st)"

fun sub_all :: "(rm \<Rightarrow> 's \<Rightarrow> string \<times> 's) \<Rightarrow> rm list \<times> string \<Rightarrow> 's \<Rightarrow> string \<times> 's" where
  "sub_all f (ms, rest) st = sub_end (sub_fold f ms st) rest"

fun sub_pieces :: "(rm \<Rightarrow> string) \<Rightarrow> rm list \<Rightarrow> string \<Rightarrow> string" where
  "sub_pieces f [] rest = rest"
| "sub_pieces f (mt # ms) rest = m_gap mt @ f mt @ sub_pieces f ms rest"

fun sub_plain :: "(rm \<Rightarrow> string) \<Rightarrow> rm list \<times> string \<Rightarrow> string" where
  "sub_plain f (ms, rest) = sub_pieces f ms rest"

fun split_pieces :: "rm list \<times> string \<Rightarrow> string list" where
  "split_pieces (ms, rest) = map m_gap ms @ [rest]"

fun cnt_if :: "bool \<Rightarrow> string \<Rightarrow> string \<Rightarrow> nat" where
  "cnt_if True t cs = 1 + count_go t (length t - 1) cs"
| "cnt_if False t cs = count_go t 0 cs"

text \<open>
  What a successful run of the matcher on a pattern amounts to, as a relation between
  the state before the pattern and the state after it. It is used to reason about
  every match of a pattern, where the equations above compute one.
\<close>

inductive sem :: "re \<Rightarrow> char option \<Rightarrow> string \<Rightarrow> groups \<Rightarrow> char option \<Rightarrow> string \<Rightarrow> groups \<Rightarrow> bool" where
  sem_Lit: "strip_prefix l s = Some s' \<Longrightarrow> sem (Lit l) p s g (after_lit l p) s' g"
| sem_Dot: "c \<noteq> nl \<Longrightarrow> sem Dot p (c # s) g (Some c) s g"
| sem_AnyNL: "sem AnyNL p (c # s) g (Some c) s g"
| sem_Cls: "(c \<in> set cs \<or> list_ex (\<lambda>f. f c) fs) = pos \<Longrightarrow> sem (Cls pos cs fs) p (c # s) g (Some c) s g"
| sem_Seq: "sem a p s g p1 s1 g1 \<Longrightarrow> sem b p1 s1 g1 p2 s2 g2 \<Longrightarrow> sem (Seq a b) p s g p2 s2 g2"
| sem_AltL: "sem a p s g p' s' g' \<Longrightarrow> sem (Alt a b) p s g p' s' g'"
| sem_AltR: "sem b p s g p' s' g' \<Longrightarrow> sem (Alt a b) p s g p' s' g'"
| sem_Star0: "sem (Star a) p s g p s g"
| sem_StarS: "sem a p s g p1 s1 g1 \<Longrightarrow> length s1 < length s \<Longrightarrow> sem (Star a) p1 s1 g1 p2 s2 g2
    \<Longrightarrow> sem (Star a) p s g p2 s2 g2"
| sem_Lazy0: "sem (StarLazy a) p s g p s g"
| sem_LazyS: "sem a p s g p1 s1 g1 \<Longrightarrow> length s1 < length s \<Longrightarrow> sem (StarLazy a) p1 s1 g1 p2 s2 g2
    \<Longrightarrow> sem (StarLazy a) p s g p2 s2 g2"
| sem_Grp: "sem a p s g p' s' g' \<Longrightarrow> sem (Grp n a) p s g p' s' (g'(n \<mapsto> take (length s - length s') s))"
| sem_Backref: "g n = Some l \<Longrightarrow> strip_prefix l s = Some s' \<Longrightarrow> sem (Backref n) p s g (after_lit l p) s' g"
| sem_LookPos: "rmatch a p s g (\<lambda>p' s' g'. Some (p', s', g')) = Some (p1, s1, g1)
    \<Longrightarrow> sem (Look True a) p s g p s g1"
| sem_LookNeg: "rmatch a p s g (\<lambda>p' s' g'. Some (p', s', g')) = None \<Longrightarrow> sem (Look False a) p s g p s g"
| sem_Behind: "(p = Some c) = pos \<Longrightarrow> sem (Behind pos c) p s g p s g"
| sem_WordB: "(case p of None \<Rightarrow> False | Some c \<Rightarrow> py_isword c)
      \<noteq> (case s of [] \<Rightarrow> False | c # _ \<Rightarrow> py_isword c) \<Longrightarrow> sem WordB p s g p s g"
| sem_Bol: "sem Bol None s g None s g"
| sem_Eol: "s = [] \<or> s = [nl] \<Longrightarrow> sem Eol p s g p s g"

fun cl_step :: "string option \<Rightarrow> nat \<Rightarrow> string \<Rightarrow> string" where
  "cl_step None n text = text"
| "cl_step (Some text') n text = convert_lists_loop n text'"







text \<open>
  The shape of an \<open>\includegraphics\<close> command: the name, white space, the options in
  brackets or nothing, white space, and the argument in braces.
\<close>

definition is_includegraphics :: "string \<Rightarrow> bool" where
  "is_includegraphics w \<longleftrightarrow>
     (\<exists>ws1 opt ws2 arg.
        w = bs ''includegraphics'' @ ws1 @ opt @ ws2 @ ''{'' @ arg @ ''}''
        \<and> list_all py_isspace ws1 \<and> list_all py_isspace ws2 \<and> CHR ''}'' \<notin> set arg
        \<and> (opt = [] \<or> (\<exists>opts. opt = ''['' @ opts @ '']'' \<and> CHR '']'' \<notin> set opts)))"

text \<open>A match of the pattern \<open>r\<close>, as \<open>finditer\<close> returns it.\<close>

definition matched :: "re \<Rightarrow> rm \<Rightarrow> bool" where
  "matched r m \<longleftrightarrow> (\<exists>p0 p' post. sem r p0 (m_whole m @ post) Map.empty p' post (m_groups m))"

text \<open>
  The text \<open>s\<close> starts with an \<open>\includegraphics\<close> command of that shape, and the scan
  that takes the commands of that shape out of a text: from the left, a command that
  starts at the position is dropped, any other character is kept.
\<close>

definition starts_includegraphics :: "string \<Rightarrow> bool" where
  "starts_includegraphics s \<longleftrightarrow> (\<exists>w post. s = w @ post \<and> is_includegraphics w)"

inductive stripped :: "string \<Rightarrow> string \<Rightarrow> bool" where
  stripped_Nil: "stripped [] []"
| stripped_cmd: "is_includegraphics w \<Longrightarrow> stripped post out \<Longrightarrow> stripped (w @ post) out"
| stripped_keep: "\<not> starts_includegraphics (c # cs) \<Longrightarrow> stripped cs out
    \<Longrightarrow> stripped (c # cs) (c # out)"

text \<open>A file system with no directory and no file.\<close>

definition no_files :: env where
  "no_files = \<lparr>fs_isdir = \<lambda>_. False, fs_isfile = \<lambda>_. False, fs_read = \<lambda>_. None,
     fmt_pct = \<lambda>s. s\<rparr>"







section \<open>Properties\<close>

subsection \<open>Evaluation rules\<close>

text \<open>
  The equations by which the definitions are computed on a concrete text. None of them
  has a conditional or a case distinction on its right-hand side: the choice is made
  by the auxiliary function, from its evaluated first argument.
\<close>

named_theorems ev "equations for computing on a concrete text"

declare rmatch.simps [simp del] run.simps [simp del] finditer_go.simps [simp del]
  search_go.simps [simp del] strip_prefix.simps(3) [simp del] split_char.simps(2) [simp del]
  replace_go.simps(3) [simp del] count_go.simps(3) [simp del] rstrip.simps(2) [simp del]
  sub_fold.simps(2) [simp del]

lemma lt_len_eq: "lt_len xs ys = (length xs < length ys)"
  by (induction xs ys rule: lt_len.induct) auto

lemma drop_len_eq: "drop_len w s = drop (length w) s"
  by (induction w s rule: drop_len.induct) auto

lemma take_len_eq: "take_len w s = take (length w) s"
  by (induction w s rule: take_len.induct) auto

lemma consumed_eq: "consumed s s' = take (length s - length s') s"
  by (simp add: consumed_def take_len_eq drop_len_eq)

lemma strip_prefix_ev [ev]: "strip_prefix (c # cs) (d # ds) = sp_if (c = d) cs ds"
  by (simp add: strip_prefix.simps)

lemma split_char_ev [ev]: "split_char sep (c # cs) = split_step (c = sep) c (split_char sep cs)"
  by (cases "split_char sep cs") (auto simp: split_char.simps)

lemma replace_go_ev [ev]:
  "replace_go old new 0 (c # cs) = rep_if (startswith (c # cs) old) old new c cs"
  by (simp add: replace_go.simps)

lemma count_go_ev [ev]: "count_go t 0 (c # cs) = cnt_if (startswith (c # cs) t) t cs"
  by (simp add: count_go.simps)

lemma rstrip_ev [ev]: "rstrip P (c # cs) = rs_step P c (rstrip P cs)"
  by (cases "rstrip P cs") (auto simp: rstrip.simps)

lemma lstrip_ev [ev]: "lstrip P [] = []" "lstrip P (c # cs) = ls_if (P c) P c cs"
  by (simp_all add: lstrip_def)

lemma run_fun:
  "run [] = (\<lambda>p s g. Some (p, s, g))"
  "run (R r # ks) = (\<lambda>p s g. rmatch r p s g (run ks))"
  "run (Progress s0 # ks) = (\<lambda>p s g. if length s < length s0 then run ks p s g else None)"
  "run (SetGrp n s0 # ks) = (\<lambda>p s g. run ks p s (g(n \<mapsto> take (length s0 - length s) s0)))"
  by (intro ext, simp add: run.simps)+

lemma run_Nil [ev]: "run [] p s g = Some (p, s, g)"
  by (simp add: run_fun)

lemma run_Lit [ev]:
  "run (R (Lit []) # ks) p s g = run ks p s g"
  "run (R (Lit (c # l)) # ks) p [] g = None"
  "run (R (Lit (c # l)) # ks) p (d # s) g = guard (c = d) (R (Lit l) # ks) (Some c) s g"
  by (auto simp: run_fun rmatch.simps strip_prefix.simps split: option.splits)

lemma run_Dot [ev]:
  "run (R Dot # ks) p [] g = None"
  "run (R Dot # ks) p (c # s) g = guard (c \<noteq> nl) ks (Some c) s g"
  by (simp_all add: run_fun rmatch.simps)

lemma run_AnyNL [ev]:
  "run (R AnyNL # ks) p [] g = None"
  "run (R AnyNL # ks) p (c # s) g = run ks (Some c) s g"
  by (simp_all add: run_fun rmatch.simps)

lemma run_Cls [ev]:
  "run (R (Cls pos cs fs) # ks) p [] g = None"
  "run (R (Cls pos cs fs) # ks) p (c # s) g =
     guard ((c \<in> set cs \<or> list_ex (\<lambda>f. f c) fs) = pos) ks (Some c) s g"
  by (simp_all add: run_fun rmatch.simps)

lemma run_Seq [ev]: "run (R (Seq a b) # ks) p s g = run (R a # R b # ks) p s g"
  by (simp add: run_fun rmatch.simps)

lemma run_Alt [ev]:
  "run (R (Alt a b) # ks) p s g = orelse (run (R a # ks) p s g) (R b # ks) p s g"
  by (cases "run (R a # ks) p s g") (simp_all add: run_fun rmatch.simps)

lemma run_Progress [ev]: "run (Progress s0 # ks) p s g = guard (lt_len s s0) ks p s g"
  by (simp add: run_fun lt_len_eq)

lemma run_Star [ev]:
  "run (R (Star a) # ks) p s g =
     orelse (run (R a # Progress s # R (Star a) # ks) p s g) ks p s g"
proof -
  have k: "(\<lambda>p' s' g'. if length s' < length s then rmatch (Star a) p' s' g' (run ks) else None)
      = run (Progress s # R (Star a) # ks)"
    by (intro ext) (simp add: run_fun)
  have 1: "run (R (Star a) # ks) p s g = rmatch (Star a) p s g (run ks)"
    by (simp only: run.simps(2))
  have 2: "rmatch (Star a) p s g (run ks) =
      (case rmatch a p s g (run (Progress s # R (Star a) # ks)) of
         Some r \<Rightarrow> Some r | None \<Rightarrow> run ks p s g)"
    by (subst rmatch.simps(7)) (simp only: k)
  have 3: "run (R a # Progress s # R (Star a) # ks) p s g
      = rmatch a p s g (run (Progress s # R (Star a) # ks))"
    by (simp only: run.simps(2))
  show ?thesis
    by (cases "rmatch a p s g (run (Progress s # R (Star a) # ks))") (simp_all only: 1 2 3 orelse.simps option.case)
qed

lemma run_StarLazy [ev]:
  "run (R (StarLazy a) # ks) p s g =
     orelse (run ks p s g) (R a # Progress s # R (StarLazy a) # ks) p s g"
proof -
  have k: "(\<lambda>p' s' g'. if length s' < length s then rmatch (StarLazy a) p' s' g' (run ks) else None)
      = run (Progress s # R (StarLazy a) # ks)"
    by (intro ext) (simp add: run_fun)
  have 1: "run (R (StarLazy a) # ks) p s g = rmatch (StarLazy a) p s g (run ks)"
    by (simp only: run.simps(2))
  have 2: "rmatch (StarLazy a) p s g (run ks) =
      (case run ks p s g of
         Some r \<Rightarrow> Some r
       | None \<Rightarrow> rmatch a p s g (run (Progress s # R (StarLazy a) # ks)))"
    by (subst rmatch.simps(8)) (simp only: k)
  have 3: "run (R a # Progress s # R (StarLazy a) # ks) p s g
      = rmatch a p s g (run (Progress s # R (StarLazy a) # ks))"
    by (simp only: run.simps(2))
  show ?thesis
    by (cases "run ks p s g") (simp_all only: 1 2 3 orelse.simps option.case)
qed

lemma run_Grp [ev]: "run (R (Grp n a) # ks) p s g = run (R a # SetGrp n s # ks) p s g"
  by (simp add: run_fun rmatch.simps)

lemma run_SetGrp [ev]: "run (SetGrp n s0 # ks) p s g = run ks p s (g(n \<mapsto> consumed s0 s))"
  by (simp add: run_fun consumed_eq)

lemma run_Backref [ev]: "run (R (Backref n) # ks) p s g = backref (g n) ks p s g"
  by (cases "g n") (simp_all add: run_fun rmatch.simps)

lemma run_Look [ev]:
  "run (R (Look pos a) # ks) p s g = look pos (run [R a] p s g) ks p s g"
  by (cases "run [R a] p s g"; cases pos) (auto simp: run_fun rmatch.simps)

lemma run_Behind [ev]:
  "run (R (Behind pos c) # ks) p s g = guard ((p = Some c) = pos) ks p s g"
  by (simp add: run_fun rmatch.simps)

lemma run_WordB [ev]: "run (R WordB # ks) p s g = guard (word_before p \<noteq> word_at s) ks p s g"
  by (cases p; cases s) (simp_all add: run_fun rmatch.simps)

lemma run_Bol [ev]: "run (R Bol # ks) p s g = guard (p = None) ks p s g"
  by (cases p) (simp_all add: run_fun rmatch.simps)

lemma run_Eol [ev]: "run (R Eol # ks) p s g = guard (at_eol s) ks p s g"
proof -
  have "at_eol s = (s = [] \<or> s = [nl])"
    by (induction s rule: at_eol.induct) auto
  then show ?thesis
    by (simp add: run_fun rmatch.simps)
qed

lemma match_at_must:
  "match_at r True p s = ma_res (run [R r, Progress s] p s Map.empty) s"
proof -
  have k: "(\<lambda>p' s' g'. if True \<and> take (length s - length s') s = [] then None
              else Some (p', s', g')) = run [Progress s]"
    by (intro ext) (auto simp: run_fun)
  have "match_at r True p s =
      (case run [R r, Progress s] p s Map.empty of
         None \<Rightarrow> None | Some (p', s', g') \<Rightarrow> Some (take (length s - length s') s, g'))"
    by (simp only: match_at_def run.simps(2) k)
  then show ?thesis
    by (cases "run [R r, Progress s] p s Map.empty") (auto simp: consumed_eq)
qed

lemma match_at_free:
  "match_at r False p s = ma_res (run [R r] p s Map.empty) s"
proof -
  have k: "(\<lambda>p' s' g'. if False \<and> take (length s - length s') s = [] then None
              else Some (p', s', g')) = run []"
    by (intro ext) (auto simp: run_fun)
  have "match_at r False p s =
      (case run [R r] p s Map.empty of
         None \<Rightarrow> None | Some (p', s', g') \<Rightarrow> Some (take (length s - length s') s, g'))"
    by (simp only: match_at_def run.simps(2) k)
  then show ?thesis
    by (cases "run [R r] p s Map.empty") (auto simp: consumed_eq)
qed

lemma match_at_ev [ev]:
  "match_at r must p s = ma_res (run (R r # adv must s) p s Map.empty) s"
  by (cases must) (simp_all add: match_at_must match_at_free)

lemma zero_width_rmatch:
  "zero_width a \<Longrightarrow> rmatch a p s g k = None \<or> (\<exists>g'. rmatch a p s g k = k p s g')"
  by (cases a) (auto simp: rmatch.simps split: option.splits)

lemma first_ok_rmatch: "\<not> first_ok r c \<Longrightarrow> rmatch r p (c # s) g k = None"
proof (induction r arbitrary: p g k)
  case (Lit l)
  then show ?case
    by (cases l) (auto simp: rmatch.simps strip_prefix.simps)
next
  case (Seq a b)
  show ?case
  proof (cases "first_ok a c")
    case False
    then show ?thesis
      by (simp add: rmatch.simps Seq.IH(1))
  next
    case True
    with Seq.prems have zw: "zero_width a" and nb: "\<not> first_ok b c"
      by auto
    from zero_width_rmatch[OF zw, of p "c # s" g "\<lambda>p' s' g'. rmatch b p' s' g' k"] nb
    show ?thesis
      by (auto simp: rmatch.simps(5) Seq.IH(2))
  qed
qed (auto simp: rmatch.simps)

lemma first_ok_match_at: "\<not> first_ok r c \<Longrightarrow> match_at r must p (c # cs) = None"
  by (simp add: match_at_def first_ok_rmatch)

lemma first_ok_ev [ev]:
  "first_ok (Seq a b) c = fo_seq (first_ok a c) a b c"
  "first_ok (Alt a b) c = fo_alt (first_ok a c) b c"
  by (cases "first_ok a c"; cases "zero_width a"; simp)+

declare first_ok.simps(5,6) [simp del]

lemma finditer_go_ev [ev]:
  "finditer_go r must p [] = fi_end (match_at r must p [])"
  "finditer_go r must p (c # cs) = fi_try (first_ok r c) r must p c cs"
proof -
  show "finditer_go r must p [] = fi_end (match_at r must p [])"
    by (cases "match_at r must p []") (auto simp: finditer_go.simps)
  show "finditer_go r must p (c # cs) = fi_try (first_ok r c) r must p c cs"
  proof (cases "match_at r must p (c # cs)")
    case None
    then show ?thesis
      by (cases "first_ok r c") (simp_all add: finditer_go.simps)
  next
    case (Some x)
    obtain w g where x: "x = (w, g)" by (cases x)
    from Some have ok: "first_ok r c"
      using first_ok_match_at by fastforce
    from Some x have "match_at r must p (c # cs) = Some (w, g)"
      by simp
    with ok show ?thesis
      by (subst finditer_go.simps(2), cases "w = []"; cases must)
         (auto simp: drop_len_eq split: prod.splits)
  qed
qed

lemma search_go_ev [ev]:
  "search_go r p [] = se_end (match_at r False p [])"
  "search_go r p (c # cs) = se_try (first_ok r c) r p c cs"
proof -
  show "search_go r p [] = se_end (match_at r False p [])"
    by (cases "match_at r False p []") (auto simp: search_go.simps)
  show "search_go r p (c # cs) = se_try (first_ok r c) r p c cs"
  proof (cases "first_ok r c")
    case True
    then show ?thesis
      by (cases "match_at r False p (c # cs)"; cases "search_go r (Some c) cs")
         (auto simp: search_go.simps(2)[of r p c cs] drop_len_eq)
  next
    case False
    then show ?thesis
      by (cases "search_go r (Some c) cs")
         (auto simp: search_go.simps(2)[of r p c cs] first_ok_match_at)
  qed
qed

lemma sub_fold_ev [ev]: "sub_fold f (mt # ms) st = sub_step (f mt st) f mt ms"
  by (cases "f mt st") (auto simp: sub_fold.simps split: prod.splits)

lemma re_sub_st_ev [ev]: "re_sub_st r f s st = sub_all f (finditer r s) st"
  by (cases "finditer r s") (auto simp: re_sub_st_def split: prod.splits)

lemma sub_pieces_eq: "sub_pieces f ms rest = concat (map (\<lambda>mt. m_gap mt @ f mt) ms) @ rest"
  by (induction ms) auto

lemma re_sub_ev [ev]: "re_sub r f s = sub_plain f (finditer r s)"
  by (cases "finditer r s") (auto simp: re_sub_def sub_pieces_eq)

lemma re_split_ev [ev]: "re_split r s = split_pieces (finditer r s)"
  by (cases "finditer r s") (auto simp: re_split_def)

lemma str_nat_ev [ev]:
  "str_nat 0 = ''0''"
  "str_nat (Suc 0) = ''1''"
  "str_nat (numeral k) = (if (numeral k :: nat) < 10 then [''0123456789'' ! numeral k]
     else str_nat (numeral k div 10) @ [''0123456789'' ! (numeral k mod 10)])"
  by (simp_all add: str_nat.simps[of 0] str_nat.simps[of "Suc 0"] str_nat.simps[of "numeral k"])

lemma str_nat_Suc_ev [ev]:
  "Suc (Suc n) < 10 \<Longrightarrow> str_nat (Suc (Suc n)) = [''0123456789'' ! Suc (Suc n)]"
  by (simp add: str_nat.simps[of "Suc (Suc n)"])

lemmas [ev] = finditer_def re_search_def re_match_def replace_def py_count_def startswith_def
  py_strip_def py_strip_chars_def bs_def nl_def grp_def group_def
  Opt_def Plus_def PlusLazy_def Spaces_def NotIn_def Braced_def
  py_isspace_def py_isword_def py_isdigit_def str_int_def Let_def consumed_def

subsection \<open>Every match is a match of the pattern\<close>

lemma rmatch_sem:
  "rmatch r p s g k = Some res \<Longrightarrow> \<exists>p' s' g'. sem r p s g p' s' g' \<and> k p' s' g' = Some res"
proof (induction r p s g k arbitrary: res rule: rmatch.induct)
  case (1 l p s g k)
  then show ?case
    by (auto simp: rmatch.simps split: option.splits intro: sem.intros)
next
  case (2 p s g k)
  then show ?case
    by (auto simp: rmatch.simps split: list.splits if_splits intro: sem.intros)
next
  case (3 p s g k)
  then show ?case
    by (auto simp: rmatch.simps split: list.splits intro: sem.intros)
next
  case (4 pos cs fs p s g k)
  then show ?case
    by (auto simp: rmatch.simps split: list.splits if_splits intro: sem.intros)
next
  case (5 a b p s g k)
  from 5(3) have "rmatch a p s g (\<lambda>p' s' g'. rmatch b p' s' g' k) = Some res"
    by (simp add: rmatch.simps)
  from 5(2)[OF this] obtain p1 s1 g1 where
    a: "sem a p s g p1 s1 g1" and b: "rmatch b p1 s1 g1 k = Some res"
    by blast
  from 5(1)[OF b] obtain p2 s2 g2 where "sem b p1 s1 g1 p2 s2 g2" "k p2 s2 g2 = Some res"
    by blast
  with a show ?case
    by (blast intro: sem_Seq)
next
  case (6 a b p s g k)
  show ?case
  proof (cases "rmatch a p s g k")
    case None
    with 6(3) have "rmatch b p s g k = Some res"
      by (simp add: rmatch.simps)
    from 6(2)[OF None this] show ?thesis
      by (blast intro: sem_AltR)
  next
    case (Some r)
    with 6(3) have "rmatch a p s g k = Some res"
      by (simp add: rmatch.simps)
    from 6(1)[OF this] show ?thesis
      by (blast intro: sem_AltL)
  qed
next
  case (7 a p s g k)
  let ?K = "\<lambda>p' s' g'. if length s' < length s then rmatch (Star a) p' s' g' k else None"
  show ?case
  proof (cases "rmatch a p s g ?K")
    case None
    with 7(3) have "k p s g = Some res"
      by (simp add: rmatch.simps(7)[of a p s g k])
    then show ?thesis
      by (blast intro: sem_Star0)
  next
    case (Some r)
    with 7(3) have "rmatch a p s g ?K = Some res"
      by (simp add: rmatch.simps(7)[of a p s g k])
    from 7(2)[OF this] obtain p1 s1 g1 where
      a: "sem a p s g p1 s1 g1" and k1: "?K p1 s1 g1 = Some res"
      by blast
    from k1 have len: "length s1 < length s" and rest: "rmatch (Star a) p1 s1 g1 k = Some res"
      by (auto split: if_splits)
    from 7(1)[OF len rest] obtain p2 s2 g2 where
      "sem (Star a) p1 s1 g1 p2 s2 g2" "k p2 s2 g2 = Some res"
      by blast
    with a len show ?thesis
      by (blast intro: sem_StarS)
  qed
next
  case (8 a p s g k)
  let ?K = "\<lambda>p' s' g'. if length s' < length s then rmatch (StarLazy a) p' s' g' k else None"
  show ?case
  proof (cases "k p s g")
    case (Some r)
    with 8(3) have "k p s g = Some res"
      by (simp add: rmatch.simps(8)[of a p s g k])
    then show ?thesis
      by (blast intro: sem_Lazy0)
  next
    case None
    with 8(3) have "rmatch a p s g ?K = Some res"
      by (simp add: rmatch.simps(8)[of a p s g k])
    from 8(2)[OF None this] obtain p1 s1 g1 where
      a: "sem a p s g p1 s1 g1" and k1: "?K p1 s1 g1 = Some res"
      by blast
    from k1 have len: "length s1 < length s" and rest: "rmatch (StarLazy a) p1 s1 g1 k = Some res"
      by (auto split: if_splits)
    from 8(1)[OF None len rest] obtain p2 s2 g2 where
      "sem (StarLazy a) p1 s1 g1 p2 s2 g2" "k p2 s2 g2 = Some res"
      by blast
    with a len show ?thesis
      by (blast intro: sem_LazyS)
  qed
next
  case (9 n a p s g k)
  from 9(2) have "rmatch a p s g (\<lambda>p' s' g'. k p' s' (g'(n \<mapsto> take (length s - length s') s)))
      = Some res"
    by (simp add: rmatch.simps)
  from 9(1)[OF this] show ?case
    by (blast intro: sem_Grp)
next
  case (10 n p s g k)
  then show ?case
    by (auto simp: rmatch.simps split: option.splits intro: sem.intros)
next
  case (11 pos a p s g k)
  show ?case
  proof (cases "rmatch a p s g (\<lambda>p' s' g'. Some (p', s', g'))")
    case None
    with 11(2) have "\<not> pos" "k p s g = Some res"
      by (auto simp: rmatch.simps split: if_splits)
    with None show ?thesis
      by (cases pos) (auto intro: sem_LookNeg)
  next
    case (Some r)
    obtain p1 s1 g1 where r: "r = (p1, s1, g1)" by (cases r)
    with Some 11(2) have "pos" "k p s g1 = Some res"
      by (auto simp: rmatch.simps split: if_splits)
    with Some r show ?thesis
      by (cases pos) (auto intro: sem_LookPos)
  qed
next
  case (12 pos c p s g k)
  then show ?case
    by (auto simp: rmatch.simps split: if_splits intro: sem.intros)
next
  case (13 p s g k)
  then show ?case
    by (auto simp: rmatch.simps split: if_splits intro!: sem_WordB exI)
next
  case (14 p s g k)
  then show ?case
    by (auto simp: rmatch.simps split: if_splits intro: sem.intros)
next
  case (15 p s g k)
  then show ?case
    by (auto simp: rmatch.simps split: if_splits intro: sem.intros)
qed

lemma strip_prefix_Some: "strip_prefix l s = Some s' \<longleftrightarrow> s = l @ s'"
  by (induction l s rule: strip_prefix.induct) (auto simp: strip_prefix.simps)


text \<open>A match consumes a prefix of the text.\<close>

lemma sem_consumes: "sem r p s g p' s' g' \<Longrightarrow> \<exists>w. s = w @ s'"
proof (induction rule: sem.induct)
  case (sem_Lit l s s' p g)
  then show ?case by (auto simp: strip_prefix_Some)
next
  case (sem_Backref g n l s s' p)
  then show ?case by (auto simp: strip_prefix_Some)
qed (auto intro: exI[of _ "[_]"])

lemma match_at_sem:
  assumes "match_at r must p s = Some (w, g)"
  shows "\<exists>p' s'. sem r p s Map.empty p' s' g \<and> s = w @ s'"
proof -
  from assms obtain p' s' where
    r: "rmatch r p s Map.empty
          (\<lambda>p' s' g'. if must \<and> take (length s - length s') s = [] then None
                       else Some (p', s', g')) = Some (p', s', g)"
    and w: "w = take (length s - length s') s"
    by (auto simp: match_at_def split: option.splits)
  from rmatch_sem[OF r] obtain p1 s1 g1 where
    s: "sem r p s Map.empty p1 s1 g1" and
    k: "(if must \<and> take (length s - length s1) s = [] then None else Some (p1, s1, g1))
          = Some (p', s', g)"
    by blast
  from k have "p1 = p'" "s1 = s'" "g1 = g"
    by (auto split: if_splits)
  with s have s': "sem r p s Map.empty p' s' g"
    by simp
  from sem_consumes[OF s'] obtain u where "s = u @ s'"
    by blast
  with w have "s = w @ s'"
    by simp
  with s' show ?thesis
    by blast
qed


text \<open>The matches of \<open>finditer\<close> and the text between them make up the whole text.\<close>

lemma matched_gap: "matched r (m\<lparr>m_gap := x\<rparr>) = matched r m"
  by (simp add: matched_def)

lemma finditer_go_sem:
  "finditer_go r must p s = (ms, rest) \<Longrightarrow>
     s = concat (map (\<lambda>m. m_gap m @ m_whole m) ms) @ rest \<and> list_all (matched r) ms"
proof (induction r must p s arbitrary: ms rest rule: finditer_go.induct)
  case (1 r must p)
  show ?case
  proof (cases "match_at r must p []")
    case None
    with 1 show ?thesis
      by (simp add: finditer_go.simps)
  next
    case (Some x)
    obtain w g where x: "x = (w, g)" by (cases x)
    from Some x 1 have e: "ms = [\<lparr>m_gap = [], m_whole = w, m_groups = g\<rparr>]" "rest = []"
      by (simp_all add: finditer_go.simps)
    from Some x match_at_sem[of r must p "[]" w g] obtain p' where
      "sem r p [] Map.empty p' [] g" "w = []"
      by auto
    then have "matched r \<lparr>m_gap = [], m_whole = w, m_groups = g\<rparr>"
      unfolding matched_def by (intro exI[of _ p] exI[of _ p'] exI[of _ "[]"]) simp
    with e \<open>w = []\<close> show ?thesis
      by simp
  qed
next
  case (2 r must p c cs)
  show ?case
  proof (cases "match_at r must p (c # cs)")
    case None
    obtain ms' rest' where f: "finditer_go r False (Some c) cs = (ms', rest')"
      by (cases "finditer_go r False (Some c) cs")
    from "2.IH"(1)[OF None f] have ih:
      "cs = concat (map (\<lambda>m. m_gap m @ m_whole m) ms') @ rest'" "list_all (matched r) ms'"
      by simp_all
    from None f "2.prems" have e: "(ms, rest) = pass_char c (ms', rest')"
      by (simp add: finditer_go.simps)
    show ?thesis
    proof (cases ms')
      case Nil
      with e ih show ?thesis
        by simp
    next
      case (Cons m ms'')
      with e ih show ?thesis
        by (simp add: matched_gap)
    qed
  next
    case (Some x)
    obtain w g where x: "x = (w, g)" by (cases x)
    from Some x match_at_sem[of r must p "c # cs" w g] obtain p' s' where
      m: "sem r p (c # cs) Map.empty p' s' g" "c # cs = w @ s'"
      by auto
    then have mt: "matched r \<lparr>m_gap = [], m_whole = w, m_groups = g\<rparr>"
      unfolding matched_def by (intro exI[of _ p] exI[of _ p'] exI[of _ s']) simp
    from m(2) have d: "drop (length w) (c # cs) = s'"
      by (metis append_eq_conv_conj)
    show ?thesis
    proof (cases "w = []")
      case True
      show ?thesis
      proof (cases must)
        case True
        with \<open>w = []\<close> Some x "2.prems" mt show ?thesis
          by (auto simp: finditer_go.simps)
      next
        case False
        obtain ms' rest' where f: "finditer_go r True p (c # cs) = (ms', rest')"
          by (cases "finditer_go r True p (c # cs)")
        from False True Some x "2.prems" f have e:
          "ms = \<lparr>m_gap = [], m_whole = w, m_groups = g\<rparr> # ms'" "rest = rest'"
          by (auto simp: finditer_go.simps)
        from "2.IH"(2)[OF Some x[symmetric] True False f] have ih:
          "c # cs = concat (map (\<lambda>m. m_gap m @ m_whole m) ms') @ rest'"
          "list_all (matched r) ms'"
          by simp_all
        from e ih mt True show ?thesis
          by simp
      qed
    next
      case False
      obtain ms' rest' where
        f: "finditer_go r False (after_lit w p) (drop (length w) (c # cs)) = (ms', rest')"
        by (cases "finditer_go r False (after_lit w p) (drop (length w) (c # cs))")
      from "2.IH"(3)[OF Some x[symmetric] False f] d have ih:
        "s' = concat (map (\<lambda>m. m_gap m @ m_whole m) ms') @ rest'" "list_all (matched r) ms'"
        by simp_all
      from False Some x "2.prems" f have "ms = \<lparr>m_gap = [], m_whole = w, m_groups = g\<rparr> # ms'"
        "rest = rest'"
        by (auto simp: finditer_go.simps)
      with ih mt m(2) show ?thesis
        by simp
    qed
  qed
qed

lemma finditer_sem:
  "finditer r s = (ms, rest) \<Longrightarrow>
     s = concat (map (\<lambda>m. m_gap m @ m_whole m) ms) @ rest \<and> list_all (matched r) ms"
  unfolding finditer_def by (rule finditer_go_sem)

text \<open>What a repetition of a character class passes over.\<close>

lemma sem_Star_Cls:
  assumes "sem r p s g p' s' g'" and "r = Star (Cls pos cs fs)"
  shows "\<exists>w. s = w @ s' \<and> g' = g \<and> list_all (\<lambda>c. (c \<in> set cs \<or> list_ex (\<lambda>f. f c) fs) = pos) w"
  using assms
proof (induction rule: sem.induct)
  case (sem_Star0 a p s g)
  show ?case
    by simp
next
  case (sem_StarS a p s g p1 s1 g1 p2 s2 g2)
  from sem_StarS.prems sem_StarS.hyps(1) have "sem (Cls pos cs fs) p s g p1 s1 g1"
    by simp
  then obtain c where c: "s = c # s1" "g1 = g" "(c \<in> set cs \<or> list_ex (\<lambda>f. f c) fs) = pos"
    by (auto elim: sem.cases)
  from sem_StarS.IH(2)[OF sem_StarS.prems] c(2) obtain w where
    "s1 = w @ s2" "g2 = g" "list_all (\<lambda>c. (c \<in> set cs \<or> list_ex (\<lambda>f. f c) fs) = pos) w"
    by auto
  with c show ?case
    by (intro exI[of _ "c # w"]) simp
qed simp_all

lemma sem_Spaces:
  "sem Spaces p s g p' s' g' \<Longrightarrow> \<exists>w. s = w @ s' \<and> g' = g \<and> list_all py_isspace w"
  unfolding Spaces_def by (drule sem_Star_Cls[OF _ refl]) simp

lemma sem_Star_NotIn:
  "sem (Star (NotIn cs)) p s g p' s' g' \<Longrightarrow>
     \<exists>w. s = w @ s' \<and> g' = g \<and> set w \<inter> set cs = {}"
  unfolding NotIn_def by (drule sem_Star_Cls[OF _ refl]) (auto simp: list_all_iff)

text \<open>The matcher finds a match whenever there is one.\<close>

lemma sem_rmatch:
  "sem r p s g p' s' g' \<Longrightarrow> k p' s' g' \<noteq> None \<Longrightarrow> rmatch r p s g k \<noteq> None"
proof (induction arbitrary: k rule: sem.induct)
  case (sem_Seq a p s g p1 s1 g1 b p2 s2 g2)
  from sem_Seq.IH(2)[of k, OF sem_Seq.prems] have "rmatch b p1 s1 g1 k \<noteq> None" .
  from sem_Seq.IH(1)[of "\<lambda>p' s' g'. rmatch b p' s' g' k", OF this] show ?case
    by (simp add: rmatch.simps)
next
  case (sem_AltL a p s g p' s' g' b)
  from sem_AltL.IH[of k, OF sem_AltL.prems] show ?case
    by (auto simp: rmatch.simps split: option.splits)
next
  case (sem_AltR b p s g p' s' g' a)
  from sem_AltR.IH[of k, OF sem_AltR.prems] show ?case
    by (auto simp: rmatch.simps split: option.splits)
next
  case (sem_Star0 a p s g)
  then show ?case
    by (subst rmatch.simps) (auto split: option.splits)
next
  case (sem_StarS a p s g p1 s1 g1 p2 s2 g2)
  from sem_StarS.IH(2)[of k, OF sem_StarS.prems] sem_StarS.hyps(2)
  have "(if length s1 < length s then rmatch (Star a) p1 s1 g1 k else None) \<noteq> None"
    by simp
  from sem_StarS.IH(1)[of "\<lambda>p' s' g'. if length s' < length s then rmatch (Star a) p' s' g' k else None",
      OF this]
  show ?case
    by (subst rmatch.simps) (auto split: option.splits)
next
  case (sem_Lazy0 a p s g)
  then show ?case
    by (subst rmatch.simps) (auto split: option.splits)
next
  case (sem_LazyS a p s g p1 s1 g1 p2 s2 g2)
  from sem_LazyS.IH(2)[of k, OF sem_LazyS.prems] sem_LazyS.hyps(2)
  have "(if length s1 < length s then rmatch (StarLazy a) p1 s1 g1 k else None) \<noteq> None"
    by simp
  from sem_LazyS.IH(1)[of "\<lambda>p' s' g'. if length s' < length s then rmatch (StarLazy a) p' s' g' k else None",
      OF this]
  show ?case
    by (subst rmatch.simps) (auto split: option.splits)
next
  case (sem_Grp a p s g p' s' g' n)
  from sem_Grp.IH[of "\<lambda>p' s' g'. k p' s' (g'(n \<mapsto> take (length s - length s') s))",
      OF sem_Grp.prems]
  show ?case
    by (simp add: rmatch.simps)
qed (auto simp: rmatch.simps split: option.splits)

lemma sem_match_at: "sem r p s Map.empty p' s' g \<Longrightarrow> match_at r False p s \<noteq> None"
proof -
  assume "sem r p s Map.empty p' s' g"
  from sem_rmatch[OF this, of "\<lambda>p' s' g'. Some (p', s', g')"]
  show ?thesis
    by (auto simp: match_at_def split: option.splits)
qed

text \<open>A repetition of a character class passes over any run of characters of the class.\<close>

lemma sem_Star_Cls_run:
  "list_all (\<lambda>c. (c \<in> set cs \<or> list_ex (\<lambda>f. f c) fs) = pos) w
   \<Longrightarrow> \<exists>p'. sem (Star (Cls pos cs fs)) p (w @ s) g p' s g"
proof (induction w arbitrary: p)
  case Nil
  show ?case
    by (auto intro: sem_Star0)
next
  case (Cons c w)
  from Cons.prems have c: "(c \<in> set cs \<or> list_ex (\<lambda>f. f c) fs) = pos"
    and w: "list_all (\<lambda>c. (c \<in> set cs \<or> list_ex (\<lambda>f. f c) fs) = pos) w"
    by simp_all
  from Cons.IH[OF w, of "Some c"] obtain p' where
    r: "sem (Star (Cls pos cs fs)) (Some c) (w @ s) g p' s g"
    by blast
  from c have "sem (Cls pos cs fs) p (c # w @ s) g (Some c) (w @ s) g"
    by (rule sem_Cls)
  from sem_StarS[OF this _ r] show ?case
    by auto
qed

lemma sem_Spaces_run: "list_all py_isspace w \<Longrightarrow> \<exists>p'. sem Spaces p (w @ s) g p' s g"
  unfolding Spaces_def by (rule sem_Star_Cls_run) (simp add: list_all_iff)

lemma sem_Star_NotIn_run:
  "set w \<inter> set cs = {} \<Longrightarrow> \<exists>p'. sem (Star (NotIn cs)) p (w @ s) g p' s g"
  unfolding NotIn_def by (rule sem_Star_Cls_run) (auto simp: list_all_iff)


subsection \<open>Heading numbers\<close>

text \<open>
  C4. The claim is that an emitted heading number never contains a zero segment: the
  card prefix is followed by the nonzero ancestor counters and the current level's
  count. The \<open>paragraph\<close> branch skips a zero ancestor only when \<open>subsubsec\<close> is
  zero, and the \<open>subsubsection\<close> branch never does: a \<open>\subsubsection\<close> that comes
  before any \<open>\subsection\<close> in a card with prefix 8 is numbered \<open>8.0.1\<close>.
\<close>

theorem number_headings_zero_segment:
  "number_headings (bs ''subsubsection{A}'') 8 = ''<h5>8.0.1. A</h5>''"
  by (simp add: ev number_headings_def number_headings_repl_def heading_pat_def
      label_sp_pat_def stt_prefix_def cong: let_weak_cong)

subsection \<open>Table header deduplication\<close>

lemmas table_defs = convert_tabular_def pat_long_def pat_tab_def col_spec_def table_repl_def
  table_html_def table_rows_def table_clean_def longtable_cmd_pat_def rule_pat_def
  caption_sp_pat_def label_sp_pat_def rowcolor_pat_def definecolor_sp_pat_def
  renewcommand_sp_pat_def textcolor_pat_def row_sep_pat_def row_cells_def cells_text_def
  th_cell_def td_cell_def table_open_def Arg_def

lemma dedup_rows_seen: "dedup_rows (Some h) rows = filter (\<lambda>r. cells_text r \<noteq> h) rows"
  by (induction rows) auto

lemma dedup_rows_first:
  "dedup_rows None (h # rest) = h # filter (\<lambda>r. cells_text r \<noteq> cells_text h) rest"
  by (simp add: dedup_rows_seen)

text \<open>
  C5. Of the rows of a table, the first is kept as the header and every later row whose
  joined cell text equals the header's is dropped: the table that is rendered consists
  of the header and the other rows. No rows give the empty string. A \<open>longtable\<close> of six
  rows whose fifth row repeats the header (\<open>A & B\<close>, written with other spacing)
  is rendered with five \<open><tr\<close> elements.
\<close>

theorem table_header_dedup:
  \<open>dedup_rows None (h # rest) = h # filter (\<lambda>r. cells_text r \<noteq> cells_text h) rest
   \<and> table_html (h # rest) =
       table_open
       @ render_rows (Suc (length (filter (\<lambda>r. cells_text r \<noteq> cells_text h) rest))) 0
           (h # filter (\<lambda>r. cells_text r \<noteq> cells_text h) rest)
       @ ''</tbody></table>''
   \<and> table_html [] = []
   \<and> py_count
         (convert_tabular
           (bs ''begin{longtable}{ll}'' @ ''A & B'' @ bs (bs ''1&2'') @ bs (bs ''3&4'')
            @ bs (bs ''5&6'') @ bs (bs '' A&B '') @ bs (bs ''7&8'') @ bs (bs [])
            @ bs ''end{longtable}''))
         ''<tr'' = 5\<close>
proof (intro conjI)
  show "dedup_rows None (h # rest) = h # filter (\<lambda>r. cells_text r \<noteq> cells_text h) rest"
    by (rule dedup_rows_first)
  show \<open>table_html (h # rest) =
       table_open
       @ render_rows (Suc (length (filter (\<lambda>r. cells_text r \<noteq> cells_text h) rest))) 0
           (h # filter (\<lambda>r. cells_text r \<noteq> cells_text h) rest)
       @ ''</tbody></table>''\<close>
    by (simp add: table_html_def dedup_rows_seen)
  show "table_html [] = []"
    by (simp add: table_html_def)
  show \<open>py_count
         (convert_tabular
           (bs ''begin{longtable}{ll}'' @ ''A & B'' @ bs (bs ''1&2'') @ bs (bs ''3&4'')
            @ bs (bs ''5&6'') @ bs (bs '' A&B '') @ bs (bs ''7&8'') @ bs (bs [])
            @ bs ''end{longtable}''))
         ''<tr'' = 5\<close>
    by (simp add: ev table_defs cong: let_weak_cong)
qed


subsection \<open>Environment numbering\<close>














subsection \<open>List conversion\<close>


lemma convert_lists_loop_ev [ev]:
  "convert_lists_loop (Suc n) text = cl_step (list_step text) n text"
  "convert_lists_loop (numeral k) text = cl_step (list_step text) (pred_numeral k) text"
  by (cases "list_step text"; simp add: numeral_eq_Suc)+

declare convert_lists_loop.simps(2) [simp del]

inductive_cases sem_SeqE: "sem (Seq a b) p s g p' s' g'"
inductive_cases sem_LitE: "sem (Lit l) p s g p' s' g'"
inductive_cases sem_AltE: "sem (Alt a b) p s g p' s' g'"




lemma sem_Seq_iff:
  "sem (Seq a b) p s g p' s' g' \<longleftrightarrow>
     (\<exists>p1 s1 g1. sem a p s g p1 s1 g1 \<and> sem b p1 s1 g1 p' s' g')"
  by (auto elim!: sem_SeqE intro: sem_Seq)

lemma sem_Lit_iff:
  "sem (Lit l) p s g p' s' g' \<longleftrightarrow> s = l @ s' \<and> p' = after_lit l p \<and> g' = g"
  by (auto elim!: sem_LitE intro: sem_Lit simp: strip_prefix_Some)



















subsection \<open>Images\<close>

lemmas image_defs = convert_includegraphics_def includegraphics_repl_def includegraphics_pat_def
  includegraphics_strip_pat_def digits_dots_def width_rel_pat_def width_abs_pat_def width_rel_def
  width_abs_def embed_image_def image_placeholder_def img_tag_def build_search_dirs_def
  add_dir_def dirname_def path_head_def path_base_def path_join_def splitext_ext_def
  py_float_ok_def re_sub_err_def MIME_TYPES_def lower_def lower_char_def

lemma sem_Opt_iff:
  "sem (Opt a) p s g p' s' g' \<longleftrightarrow>
     sem a p s g p' s' g' \<or> (s' = s \<and> p' = p \<and> g' = g)"
  unfolding Opt_def
  by (auto elim!: sem_AltE simp: sem_Lit_iff intro: sem_AltL sem_AltR sem_Lit)

text \<open>A match of the pattern used without a directory has the shape of a command.\<close>

lemma strip_pat_sem:
  assumes "sem includegraphics_strip_pat p0 (w @ post) Map.empty p' post g"
  shows "is_includegraphics w"
proof -
  from assms obtain p1 s1 g1 where
    a0: "sem (Lit (bs ''includegraphics'')) p0 (w @ post) Map.empty p1 s1 g1" and
    r1: "sem (Seqs [Spaces, Opt (Seq (Lit ''['') (Seq (Star (NotIn '']'')) (Lit '']''))), Spaces,
           Lit ''{'', Star (NotIn ''}''), Lit ''}'']) p1 s1 g1 p' post g"
    unfolding includegraphics_strip_pat_def by (auto elim: sem_SeqE)
  from a0 have a: "w @ post = bs ''includegraphics'' @ s1"
    by (simp add: sem_Lit_iff)
  from r1 obtain p2 s2 g2 where
    b: "sem Spaces p1 s1 g1 p2 s2 g2" and
    r2: "sem (Seqs [Opt (Seq (Lit ''['') (Seq (Star (NotIn '']'')) (Lit '']''))), Spaces,
           Lit ''{'', Star (NotIn ''}''), Lit ''}'']) p2 s2 g2 p' post g"
    by (auto elim: sem_SeqE)
  from r2 obtain p3 s3 g3 where
    c: "sem (Opt (Seq (Lit ''['') (Seq (Star (NotIn '']'')) (Lit '']'')))) p2 s2 g2 p3 s3 g3" and
    r3: "sem (Seqs [Spaces, Lit ''{'', Star (NotIn ''}''), Lit ''}'']) p3 s3 g3 p' post g"
    by (auto elim: sem_SeqE)
  from r3 obtain p4 s4 g4 where
    d: "sem Spaces p3 s3 g3 p4 s4 g4" and
    r4: "sem (Seqs [Lit ''{'', Star (NotIn ''}''), Lit ''}'']) p4 s4 g4 p' post g"
    by (auto elim: sem_SeqE)
  from r4 obtain p5 s5 g5 where
    e0: "sem (Lit ''{'') p4 s4 g4 p5 s5 g5" and
    r5: "sem (Seqs [Star (NotIn ''}''), Lit ''}'']) p5 s5 g5 p' post g"
    by (auto elim: sem_SeqE)
  from e0 have e: "s4 = ''{'' @ s5"
    by (simp add: sem_Lit_iff)
  from r5 obtain p6 s6 g6 where
    f0: "sem (Star (NotIn ''}'')) p5 s5 g5 p6 s6 g6" and
    r6: "sem (Lit ''}'') p6 s6 g6 p' post g"
    by (auto elim: sem_SeqE)
  from r6 have "s6 = ''}'' @ post"
    by (simp add: sem_Lit_iff)
  with f0 have f: "sem (Star (NotIn ''}'')) p5 s5 g5 p6 (''}'' @ post) g6"
    by simp
  from sem_Spaces[OF b] obtain ws1 where ws1: "s1 = ws1 @ s2" "list_all py_isspace ws1"
    by blast
  from c obtain opt where opt: "s2 = opt @ s3"
    "opt = [] \<or> (\<exists>opts. opt = ''['' @ opts @ '']'' \<and> CHR '']'' \<notin> set opts)"
  proof (cases "s3 = s2")
    case True
    with that[of "[]"] show ?thesis
      by simp
  next
    case False
    with c have "sem (Seq (Lit ''['') (Seq (Star (NotIn '']'')) (Lit '']''))) p2 s2 g2 p3 s3 g3"
      by (auto simp: sem_Opt_iff)
    then obtain pa sa ga pb sb gb where
      o1: "sem (Lit ''['') p2 s2 g2 pa sa ga" and
      o2: "sem (Star (NotIn '']'')) pa sa ga pb sb gb" and
      o3: "sem (Lit '']'') pb sb gb p3 s3 g3"
      by (auto elim!: sem_SeqE)
    from o1 o3 have o4: "s2 = ''['' @ sa" "sb = '']'' @ s3"
      by (simp_all add: sem_Lit_iff)
    from sem_Star_NotIn[OF o2] obtain opts where "sa = opts @ sb" "CHR '']'' \<notin> set opts"
      by auto
    with o4 that[of "''['' @ opts @ '']''"] show ?thesis
      by auto
  qed
  from sem_Spaces[OF d] obtain ws2 where ws2: "s3 = ws2 @ s4" "list_all py_isspace ws2"
    by blast
  from sem_Star_NotIn[OF f] obtain arg where arg: "s5 = arg @ ''}'' @ post" "CHR ''}'' \<notin> set arg"
    by auto
  from a ws1(1) opt(1) ws2(1) e arg(1)
  have "w = bs ''includegraphics'' @ ws1 @ opt @ ws2 @ ''{'' @ arg @ ''}''"
    by simp
  with ws1(2) opt(2) ws2(2) arg(2) show ?thesis
    unfolding is_includegraphics_def by blast
qed

lemma matched_strip_pat: "matched includegraphics_strip_pat m \<Longrightarrow> is_includegraphics (m_whole m)"
  unfolding matched_def by (blast intro: strip_pat_sem)

text \<open>The callback raises only when the width in the options is not a number.\<close>

lemma includegraphics_repl_Inl:
  "includegraphics_repl e ds mt = Inl err \<longleftrightarrow> width_rel e (grp mt 1) = Inl err"
  by (cases "width_rel e (grp mt 1)") (simp_all add: includegraphics_repl_def Let_def)

lemma find_ext_no_file: "find_ext (e\<lparr>fs_isfile := \<lambda>_. False\<rparr>) candidate exts = None"
  by (induction exts) simp_all

lemma find_image_no_file: "find_image (e\<lparr>fs_isfile := \<lambda>_. False\<rparr>) ds filename = None"
  by (induction ds) (simp_all add: find_ext_no_file Let_def)

lemma width_rel_isfile: "width_rel (e\<lparr>fs_isfile := f\<rparr>) opts = width_rel e opts"
  by (auto simp: width_rel_def split: option.splits)

text \<open>When no file exists and the width is a number, the callback gives the placeholder.\<close>

lemma includegraphics_repl_no_file:
  "width_rel e (grp mt 1) = Inr parts \<Longrightarrow>
   includegraphics_repl (e\<lparr>fs_isfile := \<lambda>_. False\<rparr>) ds mt =
     Inr (image_placeholder ''Image'' (py_strip (grp mt 2)))"
  by (simp add: includegraphics_repl_def Let_def find_image_no_file embed_image_def
      width_rel_isfile)

text \<open>Every text of the shape of a command is matched by the pattern.\<close>

lemma strip_pat_run:
  assumes "is_includegraphics w"
  shows "\<exists>p' g. sem includegraphics_strip_pat p (w @ post) Map.empty p' post g"
proof -
  from assms obtain ws1 opt ws2 arg where
    w: "w = bs ''includegraphics'' @ ws1 @ opt @ ws2 @ ''{'' @ arg @ ''}''" and
    ws: "list_all py_isspace ws1" "list_all py_isspace ws2" and
    arg: "CHR ''}'' \<notin> set arg" and
    opt: "opt = [] \<or> (\<exists>opts. opt = ''['' @ opts @ '']'' \<and> CHR '']'' \<notin> set opts)"
    unfolding is_includegraphics_def by blast
  define g :: groups where "g = Map.empty"
  define r5 where "r5 = ''}'' @ post"
  define r4 where "r4 = arg @ r5"
  define r3 where "r3 = ''{'' @ r4"
  define r2 where "r2 = ws2 @ r3"
  define r1 where "r1 = opt @ r2"
  define r0 where "r0 = ws1 @ r1"
  define p1 where "p1 = after_lit (bs ''includegraphics'') p"
  have a: "sem (Lit (bs ''includegraphics'')) p (bs ''includegraphics'' @ r0) g p1 r0 g"
    by (simp add: sem_Lit_iff p1_def)
  from sem_Spaces_run[OF ws(1), of p1 r1 g] obtain p2 where
    b: "sem Spaces p1 r0 g p2 r1 g"
    unfolding r0_def by blast
  have "\<exists>p3. sem (Opt (Seq (Lit ''['') (Seq (Star (NotIn '']'')) (Lit '']'')))) p2 r1 g p3 r2 g"
  proof (cases "opt = []")
    case True
    then show ?thesis
      by (auto simp: sem_Opt_iff r1_def)
  next
    case False
    with opt obtain opts where o: "opt = ''['' @ opts @ '']''" "CHR '']'' \<notin> set opts"
      by blast
    from o(2) have "set opts \<inter> set '']'' = {}"
      by simp
    from sem_Star_NotIn_run[OF this, of "after_lit ''['' p2" "'']'' @ r2" g] obtain q where
      "sem (Star (NotIn '']'')) (after_lit ''['' p2) (opts @ '']'' @ r2) g q ('']'' @ r2) g"
      by blast
    then have "sem (Seq (Lit ''['') (Seq (Star (NotIn '']'')) (Lit '']''))) p2
        (''['' @ opts @ '']'' @ r2) g (after_lit '']'' q) r2 g"
      by (auto simp: sem_Seq_iff sem_Lit_iff)
    with o(1) show ?thesis
      by (auto simp: sem_Opt_iff r1_def)
  qed
  then obtain p3 where
    c: "sem (Opt (Seq (Lit ''['') (Seq (Star (NotIn '']'')) (Lit '']'')))) p2 r1 g p3 r2 g"
    by blast
  from sem_Spaces_run[OF ws(2), of p3 r3 g] obtain p4 where
    d: "sem Spaces p3 r2 g p4 r3 g"
    unfolding r2_def by blast
  have e: "sem (Lit ''{'') p4 r3 g (after_lit ''{'' p4) r4 g"
    by (simp add: sem_Lit_iff r3_def)
  from arg have "set arg \<inter> set ''}'' = {}"
    by simp
  from sem_Star_NotIn_run[OF this, of "after_lit ''{'' p4" r5 g] obtain p6 where
    f: "sem (Star (NotIn ''}'')) (after_lit ''{'' p4) r4 g p6 r5 g"
    unfolding r4_def by blast
  have h: "sem (Lit ''}'') p6 r5 g (after_lit ''}'' p6) post g"
    by (simp add: sem_Lit_iff r5_def)
  have "sem includegraphics_strip_pat p (bs ''includegraphics'' @ r0) g (after_lit ''}'' p6) post g"
    unfolding includegraphics_strip_pat_def Seqs.simps
    by (intro sem_Seq[OF a] sem_Seq[OF b] sem_Seq[OF c] sem_Seq[OF d] sem_Seq[OF e] sem_Seq[OF f] h)
  moreover have "bs ''includegraphics'' @ r0 = w @ post"
    by (simp add: w r0_def r1_def r2_def r3_def r4_def r5_def)
  ultimately show ?thesis
    unfolding g_def by auto
qed

lemma match_at_strip_pat_None:
  assumes "match_at includegraphics_strip_pat False p s = None"
  shows "\<not> starts_includegraphics s"
proof
  assume "starts_includegraphics s"
  then obtain w post where s: "s = w @ post" and w: "is_includegraphics w"
    unfolding starts_includegraphics_def by blast
  from strip_pat_run[OF w, of p post] s obtain p' g where
    "sem includegraphics_strip_pat p s Map.empty p' post g"
    by blast
  from sem_match_at[OF this] assms show False
    by simp
qed

lemma match_at_strip_pat_Some:
  assumes "match_at includegraphics_strip_pat must p s = Some (w, g)"
  shows "is_includegraphics w \<and> s = w @ drop (length w) s"
proof -
  from match_at_sem[OF assms] obtain p' s' where
    "sem includegraphics_strip_pat p s Map.empty p' s' g" "s = w @ s'"
    by blast
  with strip_pat_sem[of p w s' p' g] show ?thesis
    by auto
qed

lemma is_includegraphics_Cons: "is_includegraphics w \<Longrightarrow> w \<noteq> []"
  by (auto simp: is_includegraphics_def bs_def)

lemma pass_char_gaps:
  "pass_char c (ms', rest') = (ms, rest)
   \<Longrightarrow> concat (map m_gap ms) @ rest = c # concat (map m_gap ms') @ rest'"
  by (cases ms') auto

text \<open>What \<open>finditer\<close> keeps of a text is what the scan keeps.\<close>

lemma finditer_go_stripped:
  "finditer_go r must p s = (ms, rest) \<Longrightarrow> r = includegraphics_strip_pat \<Longrightarrow> \<not> must
   \<Longrightarrow> stripped s (concat (map m_gap ms) @ rest)"
proof (induction r must p s arbitrary: ms rest rule: finditer_go.induct)
  case (1 r must p)
  have "match_at r must p [] = None"
  proof (cases "match_at r must p []")
    case (Some x)
    obtain w g where "x = (w, g)" by (cases x)
    with Some "1.prems"(2) match_at_strip_pat_Some[of must p "[]" w g] is_includegraphics_Cons[of w]
    show ?thesis
      by auto
  qed simp
  with "1.prems"(1) show ?case
    by (simp add: finditer_go.simps stripped_Nil)
next
  case (2 r must p c cs)
  show ?case
  proof (cases "match_at r must p (c # cs)")
    case None
    obtain ms' rest' where f: "finditer_go r False (Some c) cs = (ms', rest')"
      by (cases "finditer_go r False (Some c) cs")
    from "2.IH"(1)[OF None f "2.prems"(2)] have ih: "stripped cs (concat (map m_gap ms') @ rest')"
      by simp
    from None f "2.prems"(1) have "pass_char c (ms', rest') = (ms, rest)"
      by (simp add: finditer_go.simps)
    from pass_char_gaps[OF this]
    have e: "concat (map m_gap ms) @ rest = c # concat (map m_gap ms') @ rest'" .
    from None "2.prems"(2,3) have "match_at includegraphics_strip_pat False p (c # cs) = None"
      by simp
    then have "\<not> starts_includegraphics (c # cs)"
      by (rule match_at_strip_pat_None)
    from stripped_keep[OF this ih] e show ?thesis
      by simp
  next
    case (Some x)
    obtain w g where x: "x = (w, g)" by (cases x)
    from Some x "2.prems"(2) match_at_strip_pat_Some[of must p "c # cs" w g]
    have w: "is_includegraphics w" "c # cs = w @ drop (length w) (c # cs)"
      by auto
    from is_includegraphics_Cons[OF w(1)] have ne: "w \<noteq> []" .
    obtain ms' rest' where
      f: "finditer_go r False (after_lit w p) (drop (length w) (c # cs)) = (ms', rest')"
      by (cases "finditer_go r False (after_lit w p) (drop (length w) (c # cs))")
    from "2.IH"(3)[OF Some x[symmetric] ne f "2.prems"(2)]
    have ih: "stripped (drop (length w) (c # cs)) (concat (map m_gap ms') @ rest')"
      by simp
    from ne Some x "2.prems"(1) f have e: "ms = \<lparr>m_gap = [], m_whole = w, m_groups = g\<rparr> # ms'"
      "rest = rest'"
      by (auto simp: finditer_go.simps)
    from stripped_cmd[OF w(1) ih] w(2) e show ?thesis
      by simp
  qed
qed

text \<open>
  Claim C9, as amended. Without a directory the result does not depend on the file
  system and nothing is put into the text: the result is what the scan from the left
  keeps, where a text of the shape of a command (the name, white space, options in
  brackets with no closing bracket inside, white space, an argument in braces up to
  the first closing brace) that starts at the position is dropped and any other
  character is kept.
\<close>

theorem includegraphics_stripped_without_dir:
  "(\<exists>out. stripped text out \<and> (\<forall>e. convert_includegraphics e text NoDir = Inr out))
   \<and> (\<forall>e. convert_includegraphics e
        (''See '' @ bs ''includegraphics [width=0.5'' @ bs ''textwidth]{fig1.png} and ''
           @ bs ''includegraphics{b} here'') NoDir = Inr ''See  and  here'')"
proof -
  obtain ms rest where f: "finditer_go includegraphics_strip_pat False None text = (ms, rest)"
    by (cases "finditer_go includegraphics_strip_pat False None text")
  from finditer_go_stripped[OF f refl] have "stripped text (concat (map m_gap ms) @ rest)"
    by simp
  moreover from f have "\<forall>e. convert_includegraphics e text NoDir = Inr (concat (map m_gap ms) @ rest)"
    by (simp add: convert_includegraphics_def re_sub_def finditer_def)
  moreover have "\<forall>e. convert_includegraphics e
        (''See '' @ bs ''includegraphics [width=0.5'' @ bs ''textwidth]{fig1.png} and ''
           @ bs ''includegraphics{b} here'') NoDir = Inr ''See  and  here''"
    by (simp add: ev convert_includegraphics_def includegraphics_strip_pat_def cong: let_weak_cong)
  ultimately show ?thesis
    by blast
qed

text \<open>
  A command that is not of that shape is not taken out whole: of a file name in braces
  the end stays in the text, and the starred command is kept.
\<close>

theorem includegraphics_not_removed:
  "convert_includegraphics no_files (bs ''includegraphics{{fig.v2}.png}'') NoDir = Inr ''.png}''
   \<and> convert_includegraphics no_files (bs ''includegraphics*{x.png}'') NoDir
       = Inr (bs ''includegraphics*{x.png}'')"
  by (simp add: ev convert_includegraphics_def includegraphics_strip_pat_def cong: let_weak_cong)

text \<open>
  Claim C6. A width that is not a number, as in \<open>width=1.2.3\textwidth\<close>, makes \<open>float\<close>
  raise \<open>ValueError\<close> in the callback before the file is looked for: the exception leaves
  \<open>convert_includegraphics\<close> whatever the file system holds, and no placeholder is
  returned. Without such a width a file that does not exist gives the placeholder with
  its name.
\<close>

theorem includegraphics_bad_width_raises:
  \<open>convert_includegraphics e
      (bs ''includegraphics[width=1.2.3'' @ bs ''textwidth]{missing.png}'') (Dir ''img'')
     = Inl ValueError
   \<and> convert_includegraphics (e\<lparr>fs_isfile := \<lambda>_. False\<rparr>)
      (bs ''includegraphics{missing.png}'') (Dir ''img'')
     = Inr ''<p class="table-caption" style="text-align:center"><em>[Image: missing.png]</em></p>''\<close>
proof -
  have \<open>convert_includegraphics e
      (bs ''includegraphics[width=1.2.3'' @ bs ''textwidth]{missing.png}'') (Dir ''img'')
     = Inl ValueError\<close>
    by (simp add: ev convert_includegraphics_def includegraphics_repl_def includegraphics_pat_def
        re_sub_err_def width_rel_def width_rel_pat_def digits_dots_def py_float_ok_def
        cong: let_weak_cong)
  moreover have \<open>convert_includegraphics (e\<lparr>fs_isfile := \<lambda>_. False\<rparr>)
      (bs ''includegraphics{missing.png}'') (Dir ''img'')
     = Inr ''<p class="table-caption" style="text-align:center"><em>[Image: missing.png]</em></p>''\<close>
    by (simp add: ev convert_includegraphics_def includegraphics_repl_def includegraphics_pat_def
        re_sub_err_def width_rel_def width_rel_pat_def width_abs_def width_abs_pat_def
        digits_dots_def find_image_no_file embed_image_def image_placeholder_def
        cong: let_weak_cong)
  ultimately show ?thesis
    by simp
qed

subsection \<open>Comments and code\<close>

lemmas code_defs = code_stage_def extract_code_environments_def strip_comments_def comment_pat_def
  verbatim_pat_def lst_pat_def minted_pat_def language_pat_def caption_opt_pat_def Word_def
  delimited_pat_def mintinline_pat_def verbatim_repl_def lst_repl_def minted_repl_def
  caption_of_def cap_html_def lang_badge_def placeholder_def code_key_def
  escape_def inline_code_def restore_code_placeholders_def stt_prefix_def

text \<open>
  Claim C2. \<open>latex_to_html\<close> strips the comments from the whole text before it takes
  the code out, so a \<open>%\<close> inside a \<open>verbatim\<close> block is read as the start of a comment:
  the rest of that line never reaches the block that is stored and restored. Taken out
  of the text as it was, the block would hold the line whole. When the \<open>%\<close> stands on
  the line of \<open>\end{verbatim}\<close> the end of the block is stripped too and no block is
  found. A listing with \<open>\textbf{x}\<close> and no \<open>%\<close> is stored as it is written.
\<close>

theorem code_comment_stripped_in_verbatim:
  "code_stage (bs ''begin{verbatim}'' @ [nl] @ ''x = a % b'' @ [nl] @ bs ''end{verbatim}'') 0
     = (''@@CODE_BLOCK_0@@'', [(''@@CODE_BLOCK_0@@'', pre_block [] ''x = a'')])
   \<and> restore_code_placeholders ''@@CODE_BLOCK_0@@''
       (snd (code_stage (bs ''begin{verbatim}'' @ [nl] @ ''x = a % b'' @ [nl] @ bs ''end{verbatim}'') 0))
     = pre_block [] ''x = a''
   \<and> extract_code_environments
       (bs ''begin{verbatim}'' @ [nl] @ ''x = a % b'' @ [nl] @ bs ''end{verbatim}'') 0
     = (''@@CODE_BLOCK_0@@'', [(''@@CODE_BLOCK_0@@'', pre_block [] ''x = a % b'')])
   \<and> code_stage (bs ''begin{verbatim}100% sure'' @ bs ''end{verbatim}'') 0
     = (bs ''begin{verbatim}100'', [])
   \<and> code_stage (bs ''begin{lstlisting}'' @ bs ''textbf{x}'' @ bs ''end{lstlisting}'') 0
     = (''@@CODE_BLOCK_0@@'', [(''@@CODE_BLOCK_0@@'', pre_block [] (bs ''textbf{x}''))])"
proof -
  have a: "code_stage (bs ''begin{verbatim}'' @ [nl] @ ''x = a % b'' @ [nl] @ bs ''end{verbatim}'') 0
     = (''@@CODE_BLOCK_0@@'', [(''@@CODE_BLOCK_0@@'', pre_block [] ''x = a'')])"
    by (simp add: ev code_defs cong: let_weak_cong)
  have b: "restore_code_placeholders ''@@CODE_BLOCK_0@@''
       [(''@@CODE_BLOCK_0@@'', pre_block [] ''x = a'')] = pre_block [] ''x = a''"
    by (simp add: ev restore_code_placeholders_def cong: let_weak_cong)
  have c: "extract_code_environments
       (bs ''begin{verbatim}'' @ [nl] @ ''x = a % b'' @ [nl] @ bs ''end{verbatim}'') 0
     = (''@@CODE_BLOCK_0@@'', [(''@@CODE_BLOCK_0@@'', pre_block [] ''x = a % b'')])"
    by (simp add: ev code_defs cong: let_weak_cong)
  have d: "code_stage (bs ''begin{verbatim}100% sure'' @ bs ''end{verbatim}'') 0
     = (bs ''begin{verbatim}100'', [])"
    by (simp add: ev code_defs cong: let_weak_cong)
  have e: "code_stage (bs ''begin{lstlisting}'' @ bs ''textbf{x}'' @ bs ''end{lstlisting}'') 0
     = (''@@CODE_BLOCK_0@@'', [(''@@CODE_BLOCK_0@@'', pre_block [] (bs ''textbf{x}''))])"
    by (simp add: ev code_defs cong: let_weak_cong)
  from a b c d e show ?thesis
    by (simp only: snd_conv simp_thms)
qed

subsection \<open>Math protection\<close>

lemmas math_defs = protect_math_def restore_math_def save_def save_text_def save_display_def
  save_aligned_def inner_pat_def dollars_pat_def display_pat_def math_envs_def math_env_pat_def
  inline_pat_def MATH_PLACEHOLDER_def

text \<open>
  Claim C1. For an \<open>equation\<close> with a \<open>cases\<close> environment inside, \<open>save_aligned\<close> keeps
  the text up to the first \<open>\end\<close> only: what is stored, and restored in place of the
  placeholder, has lost \<open>\end{cases}\<close>, so the text between \<open>\begin{equation}\<close> and
  \<open>\end{equation}\<close> is not in the result. An \<open>equation\<close> with no environment inside is
  restored with its content between \<open>\begin{aligned}\<close> and \<open>\end{aligned}\<close>, and the spans
  between dollars are restored as they were.
\<close>

theorem math_nested_environment_truncated:
  "protect_math (bs ''begin{equation}'' @ bs ''begin{cases}a'' @ bs ''end{cases}'' @ bs ''end{equation}'')
     = (MATH_PLACEHOLDER 0,
        [''$$'' @ bs ''begin{aligned}'' @ bs ''begin{cases}a'' @ bs ''end{aligned}$$''])
   \<and> restore_math (MATH_PLACEHOLDER 0)
        [''$$'' @ bs ''begin{aligned}'' @ bs ''begin{cases}a'' @ bs ''end{aligned}$$'']
     = ''$$'' @ bs ''begin{aligned}'' @ bs ''begin{cases}a'' @ bs ''end{aligned}$$''
   \<and> \<not> contains (''$$'' @ bs ''begin{aligned}'' @ bs ''begin{cases}a'' @ bs ''end{aligned}$$'')
        (bs ''begin{cases}a'' @ bs ''end{cases}'')
   \<and> protect_math (bs ''begin{equation}a'' @ bs ''end{equation}'')
     = (MATH_PLACEHOLDER 0, [''$$'' @ bs ''begin{aligned}a'' @ bs ''end{aligned}$$''])
   \<and> protect_math (''If $x^2$ and $$y$$ then '' @ bs ''[z'' @ bs '']'')
     = (''If '' @ MATH_PLACEHOLDER 2 @ '' and '' @ MATH_PLACEHOLDER 0 @ '' then ''
          @ MATH_PLACEHOLDER 1, [''$$y$$'', ''$$z$$'', ''$x^2$''])
   \<and> restore_math (''If '' @ MATH_PLACEHOLDER 2 @ '' and '' @ MATH_PLACEHOLDER 0 @ '' then ''
          @ MATH_PLACEHOLDER 1) [''$$y$$'', ''$$z$$'', ''$x^2$'']
     = ''If $x^2$ and $$y$$ then $$z$$''"
proof -
  have a: "protect_math (bs ''begin{equation}'' @ bs ''begin{cases}a'' @ bs ''end{cases}'' @ bs ''end{equation}'')
     = (MATH_PLACEHOLDER 0,
        [''$$'' @ bs ''begin{aligned}'' @ bs ''begin{cases}a'' @ bs ''end{aligned}$$''])"
    by (simp add: ev math_defs cong: let_weak_cong)
  have b: "restore_math (MATH_PLACEHOLDER 0)
        [''$$'' @ bs ''begin{aligned}'' @ bs ''begin{cases}a'' @ bs ''end{aligned}$$'']
     = ''$$'' @ bs ''begin{aligned}'' @ bs ''begin{cases}a'' @ bs ''end{aligned}$$''"
    by (simp add: ev math_defs cong: let_weak_cong)
  have c: "\<not> contains (''$$'' @ bs ''begin{aligned}'' @ bs ''begin{cases}a'' @ bs ''end{aligned}$$'')
        (bs ''begin{cases}a'' @ bs ''end{cases}'')"
    by (simp add: ev cong: let_weak_cong)
  have d: "protect_math (bs ''begin{equation}a'' @ bs ''end{equation}'')
     = (MATH_PLACEHOLDER 0, [''$$'' @ bs ''begin{aligned}a'' @ bs ''end{aligned}$$''])"
    by (simp add: ev math_defs cong: let_weak_cong)
  have e: "protect_math (''If $x^2$ and $$y$$ then '' @ bs ''[z'' @ bs '']'')
     = (''If '' @ MATH_PLACEHOLDER 2 @ '' and '' @ MATH_PLACEHOLDER 0 @ '' then ''
          @ MATH_PLACEHOLDER 1, [''$$y$$'', ''$$z$$'', ''$x^2$''])"
    by (simp add: ev math_defs cong: let_weak_cong)
  have f: "restore_math (''If '' @ MATH_PLACEHOLDER 2 @ '' and '' @ MATH_PLACEHOLDER 0 @ '' then ''
          @ MATH_PLACEHOLDER 1) [''$$y$$'', ''$$z$$'', ''$x^2$'']
     = ''If $x^2$ and $$y$$ then $$z$$''"
    by (simp add: ev math_defs cong: let_weak_cong)
  from a b c d e f show ?thesis
    by (simp only: simp_thms)
qed

subsection \<open>Figure and table numbers\<close>




















end
